theory Spec2Isabelle
  imports Main
begin

section \<open>Values exchanged with the server and the local stores\<close>

text \<open>
  The scalar JavaScript values that the session code reads from responses, from the local
  key-value store and from the editor configuration: \<open>undefined\<close>, \<open>null\<close>, booleans,
  (integral) numbers and strings. \<open>truthy\<close> is JavaScript's conversion to boolean, and
  strict equality \<open>===\<close> on these values is equality of the terms.
\<close>

datatype jsval = JUndefined | JNull | JBool bool | JNum int | JStr string

fun truthy :: "jsval \<Rightarrow> bool" where
  "truthy JUndefined = False"
| "truthy JNull = False"
| "truthy (JBool b) = b"
| "truthy (JNum n) = (n \<noteq> 0)"
| "truthy (JStr s) = (s \<noteq> [])"

text \<open>
  What \<open>JSON.parse\<close> yields for one line of the offline batch file; of the numbers, the
  integral ones.
\<close>

datatype json =
    JsNull
  | JsBool bool
  | JsNum int
  | JsStr string
  | JsArr "json list"
  | JsObj "(string \<times> json) list"

fun json_truthy :: "json \<Rightarrow> bool" where
  "json_truthy JsNull = False"
| "json_truthy (JsBool b) = b"
| "json_truthy (JsNum n) = (n \<noteq> 0)"
| "json_truthy (JsStr s) = (s \<noteq> [])"
| "json_truthy (JsArr xs) = True"
| "json_truthy (JsObj kvs) = True"

record prefs =
  showMusic :: jsval
  showGit :: jsval
  showRank :: jsval
  otherPrefs :: "(string \<times> jsval) list"

record user =
  user_id :: jsval
  preferences :: "prefs option"

text \<open>
  The object in \<open>resp.data\<close>: the fields this module reads. A field that is absent is
  \<open>JUndefined\<close>; \<open>r_data\<close> and \<open>preferences\<close> are \<open>None\<close> when falsy.
\<close>

record fields =
  r_jwt :: jsval
  r_state :: jsval
  r_email :: jsval
  r_data :: "user option"

text \<open>
  \<open>resp.data\<close> is \<open>null\<close>/\<open>undefined\<close> (reading a property of it throws), a falsy
  scalar such as the empty string (every property is \<open>undefined\<close>), or an object.
\<close>

datatype resp_data = NoData | FalsyData | Data fields

text \<open>
  A normalized response of the transport. \<open>isResponseOk\<close> and \<open>isUserDeactivated\<close>
  belong to the HTTP client, which classifies a response; the classification is carried
  by the response.
\<close>

record response =
  isResponseOk :: bool
  isUserDeactivated :: bool
  data :: resp_data

text \<open>The promise of a request resolves to a response or rejects.\<close>

datatype reply = Rejected | Resolved response

datatype http_method = GET | PUT | POST

text \<open>
  The endpoints: \<open>/ping\<close>, \<open>/data/apptoken?token=...\<close>, \<open>/data/onboard\<close>,
  \<open>/users/plugin/state\<close>, \<open>/users/me\<close>, \<open>/users/${user.id}\<close>,
  \<open>/users/${userId}/preferences\<close>, \<open>/data/heartbeat\<close>, \<open>/data/music\<close>,
  \<open>/data/batch\<close>.
\<close>

datatype api =
    Ping
  | DataApptoken
  | DataOnboard
  | UsersPluginState
  | UsersMe
  | UsersId jsval
  | UsersIdPreferences jsval
  | DataHeartbeat
  | DataMusic
  | DataBatch

text \<open>
  Request bodies. The onboarding body is \<open>{timezone, username, creation_annotation,
  hostname}\<close>; of the heartbeat the hostname, the timezone and the trigger annotation are
  kept (the other fields are constants of other modules).
\<close>

datatype payload =
    NoPayload
  | OnboardPayload jsval jsval string jsval
  | PrefsPayload prefs
  | BatchPayload "json list"
  | MusicPayload json
  | HeartbeatPayload jsval jsval string

record request =
  meth :: http_method
  path :: api
  body :: payload
  auth :: jsval

text \<open>The callbacks handed to \<open>setTimeout\<close>, one constructor per closure of the source.\<close>

datatype task =
    UserStatusFetchHandler int
  | FetchDailyKpmSessionInfo
  | OnboardDeferred
  | OnboardRetry

text \<open>What the module does to its collaborators, in the order it does it.\<close>

datatype event =
    Http request
  | SetItem string jsval
  | CleanSessionInfo
  | SetContextLoggedIn bool
  | UpdateShowMusicMetrics jsval
  | ShowOfflinePrompt bool
  | SuccessFunction bool
  | RanFetchDailyKpmSessionInfo

datatype batch_file = Absent | Unreadable | Contents string

section \<open>State\<close>

text \<open>
  The module-level variables of DataController (\<open>loggedInCacheState\<close>,
  \<open>initializedPrefs\<close>, \<open>cachedJwt\<close>) and of OnboardManager
  (\<open>secondary_window_activate_counter\<close>, \<open>retry_counter\<close>), and the collaborators' state:
  the key-value store behind \<open>getItem\<close>/\<open>setItem\<close>, the editor configuration, the
  offline batch file, the session file, the focus of the window, the pending timers
  (with the time they are due, earliest first) and the clock in milliseconds.
\<close>

record state =
  loggedInCacheState :: bool
  initializedPrefs :: bool
  cachedJwt :: jsval
  secondary_window_activate_counter :: nat
  retry_counter :: nat
  items :: "string \<Rightarrow> jsval"
  configuration :: "string \<Rightarrow> jsval"
  dataStoreFile :: batch_file
  sessionFile :: bool
  focused :: bool
  timers :: "(nat \<times> task) list"
  now :: nat
  trace :: "event list"

text \<open>
  What is outside the program and fixed for an execution: the server (its reply may depend
  on everything that happened before the request), the built-in \<open>JSON.parse\<close> (\<open>None\<close>
  when it throws) and \<open>parseInt(_, 10)\<close>, and the machine's user name, host name and time
  zone.
\<close>

record world =
  server :: "event list \<Rightarrow> request \<Rightarrow> reply"
  JSON_parse :: "string \<Rightarrow> json option"
  parseInt10 :: "jsval \<Rightarrow> jsval"
  osUsername :: jsval
  hostname :: jsval
  timeZone :: jsval

text \<open>
  An asynchronous function returns its value or rejects (an exception that leaves the
  function); the effects it had before stay. \<open>await\<close> continues with the value and
  passes a rejection on.
\<close>

datatype 'a result = Raise | Return 'a

definition await :: "'a result \<times> state \<Rightarrow> ('a \<Rightarrow> state \<Rightarrow> 'b result \<times> state) \<Rightarrow> 'b result \<times> state" where
  "await r k = (case r of (Raise, st) \<Rightarrow> (Raise, st) | (Return x, st) \<Rightarrow> k x st)"

section \<open>Collaborators\<close>

definition emit :: "event \<Rightarrow> state \<Rightarrow> state" where
  "emit e st = st\<lparr>trace := trace st @ [e]\<rparr>"

definition getItem :: "string \<Rightarrow> state \<Rightarrow> jsval" where
  "getItem k st = items st k"

definition setItem :: "string \<Rightarrow> jsval \<Rightarrow> state \<Rightarrow> state" where
  "setItem k v st = st\<lparr>items := (items st)(k := v), trace := trace st @ [SetItem k v]\<rparr>"

definition configUpdate :: "string \<Rightarrow> jsval \<Rightarrow> state \<Rightarrow> state" where
  "configUpdate k v st = st\<lparr>configuration := (configuration st)(k := v)\<rparr>"

definition deleteFile :: "state \<Rightarrow> state" where
  "deleteFile st = st\<lparr>dataStoreFile := Absent\<rparr>"

definition send :: "world \<Rightarrow> http_method \<Rightarrow> api \<Rightarrow> payload \<Rightarrow> jsval \<Rightarrow> state \<Rightarrow> response result \<times> state" where
  "send w m a b j st =
     (let rq = \<lparr>meth = m, path = a, body = b, auth = j\<rparr>;
          st' = emit (Http rq) st
      in case server w (trace st) rq of
           Rejected \<Rightarrow> (Raise, st')
         | Resolved r \<Rightarrow> (Return r, st'))"

definition softwareGet :: "world \<Rightarrow> api \<Rightarrow> jsval \<Rightarrow> state \<Rightarrow> response result \<times> state" where
  "softwareGet w a j = send w GET a NoPayload j"

definition softwarePut :: "world \<Rightarrow> api \<Rightarrow> payload \<Rightarrow> jsval \<Rightarrow> state \<Rightarrow> response result \<times> state" where
  "softwarePut w a b j = send w PUT a b j"

definition softwarePost :: "world \<Rightarrow> api \<Rightarrow> payload \<Rightarrow> jsval \<Rightarrow> state \<Rightarrow> response result \<times> state" where
  "softwarePost w a b j = send w POST a b j"

text \<open>A timer joins the pending ones after those due no later than it.\<close>

fun enqueue :: "nat \<times> task \<Rightarrow> (nat \<times> task) list \<Rightarrow> (nat \<times> task) list" where
  "enqueue x [] = [x]"
| "enqueue x (y # ys) = (if fst x < fst y then x # y # ys else y # enqueue x ys)"

definition setTimeout :: "task \<Rightarrow> nat \<Rightarrow> state \<Rightarrow> state" where
  "setTimeout t ms st = st\<lparr>timers := enqueue (now st + ms, t) (timers st)\<rparr>"

text \<open>
  Modelled from the spec: \<open>jwtExists\<close> of Util, which is not among the sources; the
  onboarding flow asks whether a token exists.
\<close>

definition jwtExists :: "state \<Rightarrow> bool" where
  "jwtExists st = truthy (getItem ''jwt'' st)"

definition softwareSessionFileExists :: "state \<Rightarrow> bool" where
  "softwareSessionFileExists st = sessionFile st"

section \<open>DataController\<close>

definition serverIsAvailable :: "world \<Rightarrow> state \<Rightarrow> bool result \<times> state" where
  "serverIsAvailable w st =
     (case softwareGet w Ping JNull st of
        (Return result, st1) \<Rightarrow> (Return (isResponseOk result), st1)
      | (Raise, st1) \<Rightarrow> (Return False, st1))"

text \<open>\<open>content.split(/\r?\n/)\<close>: a line ends at a line feed, with the carriage return before it.\<close>

fun split_from :: "string \<Rightarrow> string \<Rightarrow> string list" where
  "split_from cur [] = [rev cur]"
| "split_from cur [c] = (if c = CHR 0x0A then [rev cur, []] else [rev (c # cur)])"
| "split_from cur (c # d # ds) =
     (if c = CHR 0x0A then rev cur # split_from [] (d # ds)
      else if c = CHR 0x0D \<and> d = CHR 0x0A then rev cur # split_from [] ds
      else split_from (c # cur) (d # ds))"

definition split_lines :: "string \<Rightarrow> string list" where
  "split_lines content = split_from [] content"

text \<open>The function mapped over the lines: the parsed object, or \<open>undefined\<close> (\<open>None\<close>).\<close>

definition parse_item :: "world \<Rightarrow> string \<Rightarrow> json option" where
  "parse_item w item =
     (let obj = (if item \<noteq> [] then (case JSON_parse w item of Some v \<Rightarrow> v | None \<Rightarrow> JsNull) else JsNull)
      in if json_truthy obj then Some obj else None)"

fun item_truthy :: "json option \<Rightarrow> bool" where
  "item_truthy None = False"
| "item_truthy (Some v) = json_truthy v"

definition payloads_of :: "world \<Rightarrow> string \<Rightarrow> json list" where
  "payloads_of w content = map the (filter item_truthy (map (parse_item w) (split_lines content)))"

text \<open>
  \<open>sendOfflineData\<close> is synchronous: what it throws is caught, and the promise chain it
  starts is run here to its end (a rejection of the POST is nobody's to handle).
\<close>

definition sendOfflineData :: "world \<Rightarrow> state \<Rightarrow> state" where
  "sendOfflineData w st =
     (case dataStoreFile st of
        Absent \<Rightarrow> st
      | Unreadable \<Rightarrow> st
      | Contents content \<Rightarrow>
          if content \<noteq> [] then
            (case softwarePost w DataBatch (BatchPayload (payloads_of w content)) (getItem ''jwt'' st) st of
               (Raise, st1) \<Rightarrow> st1
             | (Return resp, st1) \<Rightarrow>
                 if isResponseOk resp \<or> isUserDeactivated resp then
                   (case serverIsAvailable w st1 of
                      (Return serverAvailablePromise, st2) \<Rightarrow>
                        if serverAvailablePromise then deleteFile st2 else st2
                    | (Raise, st2) \<Rightarrow> st2)
                 else st1)
          else st)"

datatype status = Fail | Ok

definition sendMusicData :: "world \<Rightarrow> json \<Rightarrow> state \<Rightarrow> status result \<times> state" where
  "sendMusicData w trackData st =
     (case softwarePost w DataMusic (MusicPayload trackData) (getItem ''jwt'' st) st of
        (Return resp, st1) \<Rightarrow> if \<not> isResponseOk resp then (Return Fail, st1) else (Return Ok, st1)
      | (Raise, st1) \<Rightarrow> (Return Fail, st1))"

definition getAppJwt :: "world \<Rightarrow> bool \<Rightarrow> state \<Rightarrow> jsval result \<times> state" where
  "getAppJwt w serverIsOnline st =
     (if serverIsOnline then
        await (softwareGet w DataApptoken JNull st) (\<lambda>resp st1.
          if isResponseOk resp then
            (case data resp of
               NoData \<Rightarrow> (Raise, st1)
             | FalsyData \<Rightarrow> (Return JUndefined, st1)
             | Data d \<Rightarrow> (Return (r_jwt d), st1))
          else (Return JNull, st1))
      else (Return JNull, st))"

text \<open>\<open>resp.data && resp.data.jwt\<close>\<close>

fun data_jwt :: "resp_data \<Rightarrow> jsval" where
  "data_jwt (Data d) = r_jwt d"
| "data_jwt NoData = JNull"
| "data_jwt FalsyData = JNull"

definition createAnonymousUser :: "world \<Rightarrow> bool \<Rightarrow> state \<Rightarrow> unit result \<times> state" where
  "createAnonymousUser w serverIsOnline st =
     await (getAppJwt w serverIsOnline st) (\<lambda>appJwt st1.
       if truthy appJwt \<and> serverIsOnline then
         (let jwt = getItem ''jwt'' st1 in
          if \<not> truthy jwt \<and> \<not> truthy (cachedJwt st1) then
            await (softwarePost w DataOnboard
                     (OnboardPayload (timeZone w) (osUsername w) ''NO_JWT'' (hostname w)) appJwt st1)
              (\<lambda>resp st2.
                 if isResponseOk resp \<and> truthy (data_jwt (data resp)) then
                   (Return (), (setItem ''jwt'' (data_jwt (data resp)) st2)\<lparr>cachedJwt := data_jwt (data resp)\<rparr>)
                 else (Return (), st2))
          else if \<not> truthy jwt \<and> truthy (cachedJwt st1) then
            (Return (), setItem ''jwt'' (cachedJwt st1) st1)
          else (Return (), st1))
       else (Return (), st1))"

definition isLoggedOn :: "world \<Rightarrow> bool \<Rightarrow> jsval \<Rightarrow> state \<Rightarrow> (bool \<times> jsval) result \<times> state" where
  "isLoggedOn w serverIsOnline jwt st =
     (if serverIsOnline then
        await (softwareGet w UsersPluginState jwt st) (\<lambda>resp st1.
          if isResponseOk resp then
            (case data resp of
               Data d \<Rightarrow>
                 (let state = (if truthy (r_state d) then r_state d else JStr ''UNKNOWN'') in
                  if state = JStr ''OK'' then
                    (let st2 = setItem ''name'' (r_email d) st1;
                         pluginJwt = r_jwt d;
                         st3 = st2\<lparr>cachedJwt := pluginJwt\<rparr>;
                         st4 = (if truthy pluginJwt \<and> pluginJwt \<noteq> jwt
                                then (setItem ''jwt'' pluginJwt st3)\<lparr>initializedPrefs := False\<rparr>
                                else st3)
                     in (Return (True, state), st4))
                  else (Return (False, state), st1))
             | NoData \<Rightarrow> (Return (False, JStr ''UNKNOWN''), st1)
             | FalsyData \<Rightarrow> (Return (False, JStr ''UNKNOWN''), st1))
          else (Return (False, JStr ''UNKNOWN''), st1))
      else (Return (False, JStr ''UNKNOWN''), st))"

definition getUser :: "world \<Rightarrow> bool \<Rightarrow> jsval \<Rightarrow> state \<Rightarrow> user option result \<times> state" where
  "getUser w serverIsOnline jwt st =
     (if truthy jwt \<and> serverIsOnline then
        await (softwareGet w UsersMe jwt st) (\<lambda>resp st1.
          if isResponseOk resp then
            (case data resp of
               Data d \<Rightarrow> (Return (r_data d), st1)
             | NoData \<Rightarrow> (Return None, st1)
             | FalsyData \<Rightarrow> (Return None, st1))
          else (Return None, st1))
      else (Return None, st))"

text \<open>\<open>v !== null && v !== undefined ? v : null\<close>\<close>

definition orNull :: "jsval \<Rightarrow> jsval" where
  "orNull v = (if v \<noteq> JNull \<and> v \<noteq> JUndefined then v else JNull)"

definition sendPreferencesUpdate :: "world \<Rightarrow> jsval \<Rightarrow> prefs \<Rightarrow> state \<Rightarrow> unit result \<times> state" where
  "sendPreferencesUpdate w userId userPrefs st =
     (let showMusicMetrics = configuration st ''showMusicMetrics'';
          showGitMetrics = configuration st ''showGitMetrics'';
          showWeeklyRanking = configuration st ''showWeeklyRanking'';
          userPrefs' = userPrefs\<lparr>showMusic := showMusicMetrics, showGit := showGitMetrics,
                                 showRank := showWeeklyRanking\<rparr>;
          st1 = emit (UpdateShowMusicMetrics showMusicMetrics) st
      in await (softwarePut w (UsersIdPreferences userId) (PrefsPayload userPrefs') (getItem ''jwt'' st1) st1)
           (\<lambda>resp st2. (Return (), st2)))"

definition initializePreferences :: "world \<Rightarrow> state \<Rightarrow> unit result \<times> state" where
  "initializePreferences w st =
     (let jwt = getItem ''jwt'' st in
      await (serverIsAvailable w st) (\<lambda>serverIsOnline st1.
        if truthy jwt \<and> serverIsOnline then
          await (getUser w serverIsOnline jwt st1) (\<lambda>user st2.
            case user of
              None \<Rightarrow> (Return (), st2)
            | Some u \<Rightarrow>
                (case preferences u of
                   None \<Rightarrow> (Return (), st2)
                 | Some prefs \<Rightarrow>
                     (let userId = parseInt10 w (user_id u);
                          prefsShowMusic = orNull (showMusic prefs);
                          prefsShowGit = orNull (showGit prefs);
                          prefsShowRank = orNull (showRank prefs)
                      in if prefsShowMusic = JNull \<or> prefsShowGit = JNull \<or> prefsShowRank = JNull then
                           sendPreferencesUpdate w userId prefs st2
                         else
                           (let st3 = (if prefsShowMusic \<noteq> JNull
                                       then emit (UpdateShowMusicMetrics prefsShowMusic)
                                              (configUpdate ''showMusicMetrics'' prefsShowMusic st2)
                                       else st2);
                                st4 = (if prefsShowGit \<noteq> JNull
                                       then configUpdate ''showGitMetrics'' prefsShowGit st3 else st3);
                                st5 = (if prefsShowRank \<noteq> JNull
                                       then configUpdate ''showWeeklyRanking'' prefsShowRank st4 else st4)
                            in (Return (), st5)))))
        else (Return (), st1)))"

definition updatePreferences :: "world \<Rightarrow> state \<Rightarrow> unit result \<times> state" where
  "updatePreferences w st =
     (let showMusicMetrics = configuration st ''showMusicMetrics'';
          showGitMetrics = configuration st ''showGitMetrics'';
          showWeeklyRanking = configuration st ''showWeeklyRanking'';
          st0 = emit (UpdateShowMusicMetrics showMusicMetrics) st;
          jwt = getItem ''jwt'' st0
      in await (serverIsAvailable w st0) (\<lambda>serverIsOnline st1.
           if truthy jwt \<and> serverIsOnline then
             await (getUser w serverIsOnline jwt st1) (\<lambda>user st2.
               case user of
                 None \<Rightarrow> (Return (), st2)
               | Some u \<Rightarrow>
                   await (softwareGet w (UsersId (user_id u)) jwt st2) (\<lambda>resp st3.
                     if isResponseOk resp then
                       (case data resp of
                          Data d \<Rightarrow>
                            (case r_data d of
                               Some ud \<Rightarrow>
                                 (case preferences ud of
                                    Some prefs \<Rightarrow>
                                      (let prefsShowMusic = orNull (showMusic prefs);
                                           prefsShowGit = orNull (showGit prefs);
                                           prefsShowRank = orNull (showRank prefs)
                                       in if prefsShowMusic = JNull \<or> prefsShowGit = JNull
                                             \<or> prefsShowRank = JNull
                                             \<or> prefsShowMusic \<noteq> showMusicMetrics
                                             \<or> prefsShowGit \<noteq> showGitMetrics
                                             \<or> prefsShowRank \<noteq> showWeeklyRanking
                                          then sendPreferencesUpdate w (parseInt10 w (user_id u)) prefs st3
                                          else (Return (), st3))
                                  | None \<Rightarrow> (Return (), st3))
                             | None \<Rightarrow> (Return (), st3))
                        | NoData \<Rightarrow> (Return (), st3)
                        | FalsyData \<Rightarrow> (Return (), st3))
                     else (Return (), st3)))
           else (Return (), st1)))"

definition sendHeartbeat :: "world \<Rightarrow> string \<Rightarrow> state \<Rightarrow> unit result \<times> state" where
  "sendHeartbeat w reason st =
     await (serverIsAvailable w st) (\<lambda>serverIsOnline st1.
       let jwt = getItem ''jwt'' st1 in
       if serverIsOnline \<and> truthy jwt then
         (Return (), snd (softwarePost w DataHeartbeat
                            (HeartbeatPayload (hostname w) (timeZone w) reason) jwt st1))
       else (Return (), st1))"

text \<open>
  \<open>getUserStatus\<close> starts \<open>initializePreferences\<close> and \<open>sendHeartbeat\<close> without awaiting
  them; they are run here to their end at the point where they are started, and what they
  reject is not the caller's.
\<close>

definition state_change :: "bool \<Rightarrow> string" where
  "state_change loggedIn = ''STATE_CHANGE:LOGGED_IN:'' @ (if loggedIn then ''true'' else ''false'')"

definition getUserStatus :: "world \<Rightarrow> state \<Rightarrow> bool result \<times> state" where
  "getUserStatus w st =
     (let st0 = emit CleanSessionInfo st;
          jwt = getItem ''jwt'' st0
      in await (serverIsAvailable w st0) (\<lambda>serverIsOnline st1.
           await
             (if serverIsOnline then
                await (if \<not> truthy jwt \<and> \<not> truthy (cachedJwt st1)
                       then createAnonymousUser w serverIsOnline st1
                       else (Return (), st1))
                  (\<lambda>_ st2.
                     let jwt = getItem ''jwt'' st2 in
                     await (isLoggedOn w serverIsOnline jwt st2) (\<lambda>loggedInResp st3.
                       await (if \<not> fst loggedInResp \<and> truthy (cachedJwt st3) \<and> jwt \<noteq> cachedJwt st3
                              then isLoggedOn w serverIsOnline (cachedJwt st3) st3
                              else (Return loggedInResp, st3))
                         (\<lambda>loggedInResp st4. (Return (fst loggedInResp), st4))))
              else (Return False, st1))
             (\<lambda>loggedIn st5.
                let st6 = (if serverIsOnline \<and> loggedIn \<and> \<not> initializedPrefs st5
                           then (snd (initializePreferences w st5))\<lparr>initializedPrefs := True\<rparr>
                           else st5);
                    st7 = (if \<not> loggedIn then setItem ''name'' JNull st6 else st6);
                    st8 = emit (SetContextLoggedIn loggedIn) st7;
                    st9 = (if serverIsOnline \<and> loggedInCacheState st8 \<noteq> loggedIn
                           then setTimeout FetchDailyKpmSessionInfo 1000
                                  (snd (sendHeartbeat w (state_change loggedIn) st8))
                           else st8)
                in (Return loggedIn, st9\<lparr>loggedInCacheState := loggedIn\<rparr>))))"

definition refetchUserStatusLazily :: "int \<Rightarrow> state \<Rightarrow> state" where
  "refetchUserStatusLazily tryCountUntilFoundUser st =
     setTimeout (UserStatusFetchHandler tryCountUntilFoundUser) 10000 st"

definition userStatusFetchHandler :: "world \<Rightarrow> int \<Rightarrow> state \<Rightarrow> unit result \<times> state" where
  "userStatusFetchHandler w tryCountUntilFoundUser st =
     await (getUserStatus w st) (\<lambda>loggedIn st1.
       if \<not> loggedIn then
         (if tryCountUntilFoundUser > 0
          then (Return (), refetchUserStatusLazily (tryCountUntilFoundUser - 1) st1)
          else (Return (), st1))
       else (Return (), st1))"

section \<open>OnboardManager\<close>

definition check_online_interval_ms :: nat where
  "check_online_interval_ms = 1000 * 60 * 10"

definition OnboardManager_createAnonymousUser :: "world \<Rightarrow> bool \<Rightarrow> state \<Rightarrow> jsval result \<times> state" where
  "OnboardManager_createAnonymousUser w serverIsOnline st =
     await (getAppJwt w serverIsOnline st) (\<lambda>appJwt st1.
       if truthy appJwt \<and> serverIsOnline then
         (let jwt = getItem ''jwt'' st1 in
          if \<not> truthy jwt then
            await (softwarePost w DataOnboard
                     (OnboardPayload (timeZone w) (osUsername w) ''NO_SESSION_FILE'' (hostname w)) appJwt st1)
              (\<lambda>resp st2.
                 if isResponseOk resp \<and> truthy (data_jwt (data resp)) then
                   (Return (data_jwt (data resp)), setItem ''jwt'' (data_jwt (data resp)) st2)
                 else (Return JNull, st2))
          else (Return JNull, st1))
       else (Return JNull, st1))"

text \<open>What both failure branches of \<open>onboardPlugin\<close> do.\<close>

definition prompt_and_retry :: "state \<Rightarrow> state" where
  "prompt_and_retry st =
     setTimeout OnboardRetry check_online_interval_ms
       (if retry_counter st = 0 then emit (ShowOfflinePrompt True) st else st)"

definition onboardPlugin :: "world \<Rightarrow> state \<Rightarrow> unit result \<times> state" where
  "onboardPlugin w st =
     (if \<not> focused st \<and> secondary_window_activate_counter st = 0 then
        (Return (), setTimeout OnboardDeferred (1000 * 5) st)
      else
        await (serverIsAvailable w st) (\<lambda>serverIsOnline st1.
          if \<not> softwareSessionFileExists st1 \<or> \<not> jwtExists st1 then
            (if \<not> serverIsOnline then (Return (), prompt_and_retry st1)
             else
               await (OnboardManager_createAnonymousUser w serverIsOnline st1) (\<lambda>result st2.
                 if \<not> truthy result then (Return (), prompt_and_retry st2)
                 else (Return (), emit (SuccessFunction True) st2)))
          else (Return (), emit (SuccessFunction False) st1)))"

section \<open>Timers\<close>

text \<open>
  A timer that fires runs its callback to the end; what the callback rejects is nobody's
  to handle. \<open>fire\<close> takes the timer that is due first and moves the clock to it.
\<close>

definition run_task :: "world \<Rightarrow> task \<Rightarrow> state \<Rightarrow> state" where
  "run_task w t st =
     (case t of
        UserStatusFetchHandler n \<Rightarrow> snd (userStatusFetchHandler w n st)
      | FetchDailyKpmSessionInfo \<Rightarrow> emit RanFetchDailyKpmSessionInfo st
      | OnboardDeferred \<Rightarrow>
          snd (onboardPlugin w
                 (st\<lparr>secondary_window_activate_counter := secondary_window_activate_counter st + 1\<rparr>))
      | OnboardRetry \<Rightarrow> snd (onboardPlugin w (st\<lparr>retry_counter := retry_counter st + 1\<rparr>)))"

definition fire :: "world \<Rightarrow> state \<Rightarrow> state" where
  "fire w st =
     (case timers st of
        [] \<Rightarrow> st
      | (due, t) # rest \<Rightarrow> run_task w t (st\<lparr>timers := rest, now := max (now st) due\<rparr>))"

fun run_timers :: "world \<Rightarrow> nat \<Rightarrow> state \<Rightarrow> state" where
  "run_timers w 0 st = st"
| "run_timers w (Suc n) st = (if timers st = [] then st else run_timers w n (fire w st))"

section \<open>Vocabulary of the statements\<close>

definition get_req :: "api \<Rightarrow> jsval \<Rightarrow> request" where
  "get_req a j = \<lparr>meth = GET, path = a, body = NoPayload, auth = j\<rparr>"

text \<open>The reachability probe's outcome when the trace so far is \<open>tr\<close>.\<close>

definition probe :: "world \<Rightarrow> event list \<Rightarrow> bool" where
  "probe w tr = (case server w tr (get_req Ping JNull) of Resolved r \<Rightarrow> isResponseOk r | Rejected \<Rightarrow> False)"

text \<open>A preference field is unset when it is \<open>null\<close> or \<open>undefined\<close>.\<close>

definition unset :: "jsval \<Rightarrow> bool" where
  "unset v = (v = JNull \<or> v = JUndefined)"

text \<open>The preferences object with the three fields taken from the local configuration.\<close>

definition local_prefs :: "state \<Rightarrow> prefs \<Rightarrow> prefs" where
  "local_prefs st p = p\<lparr>showMusic := configuration st ''showMusicMetrics'',
       showGit := configuration st ''showGitMetrics'',
       showRank := configuration st ''showWeeklyRanking''\<rparr>"

definition put_prefs :: "world \<Rightarrow> state \<Rightarrow> user \<Rightarrow> prefs \<Rightarrow> request" where
  "put_prefs w st u p = \<lparr>meth = PUT, path = UsersIdPreferences (parseInt10 w (user_id u)),
       body = PrefsPayload (local_prefs st p), auth = getItem ''jwt'' st\<rparr>"

text \<open>
  \<open>updatePreferences\<close>, called in \<open>st\<close>, fetches the user \<open>u\<close> from \<open>/users/me\<close> and the
  preferences \<open>p\<close> from \<open>/users/${user.id}\<close>.
\<close>

definition fetches_prefs :: "world \<Rightarrow> state \<Rightarrow> user \<Rightarrow> prefs \<Rightarrow> bool" where
  "fetches_prefs w st u p =
     (let jwt = getItem ''jwt'' st;
          st0 = emit (UpdateShowMusicMetrics (configuration st ''showMusicMetrics'')) st;
          st1 = snd (serverIsAvailable w st0);
          st2 = snd (getUser w True jwt st1)
      in truthy jwt \<and> fst (serverIsAvailable w st0) = Return True \<and>
         fst (getUser w True jwt st1) = Return (Some u) \<and>
         (case server w (trace st2) (get_req (UsersId (user_id u)) jwt) of
            Rejected \<Rightarrow> False
          | Resolved r \<Rightarrow>
              isResponseOk r \<and>
              (case data r of
                 Data d \<Rightarrow> (case r_data d of Some ud \<Rightarrow> preferences ud = Some p | None \<Rightarrow> False)
               | NoData \<Rightarrow> False
               | FalsyData \<Rightarrow> False)))"

section \<open>Example worlds and states\<close>

definition plain_world :: "(event list \<Rightarrow> request \<Rightarrow> reply) \<Rightarrow> world" where
  "plain_world srv = \<lparr>server = srv, JSON_parse = (\<lambda>_. None), parseInt10 = (\<lambda>v. v),
     osUsername = JStr ''dev'', hostname = JStr ''host'', timeZone = JStr ''UTC''\<rparr>"

text \<open>The state when the modules are loaded, with nothing stored.\<close>

definition init :: state where
  "init = \<lparr>loggedInCacheState = False, initializedPrefs = False, cachedJwt = JNull,
     secondary_window_activate_counter = 0, retry_counter = 0,
     items = (\<lambda>_. JNull), configuration = (\<lambda>_. JBool True),
     dataStoreFile = Absent, sessionFile = False, focused = True,
     timers = [], now = 0, trace = []\<rparr>"

definition ok_fields :: "fields \<Rightarrow> reply" where
  "ok_fields f = Resolved \<lparr>isResponseOk = True, isUserDeactivated = False, data = Data f\<rparr>"

definition state_fields :: "jsval \<Rightarrow> jsval \<Rightarrow> fields" where
  "state_fields s j = \<lparr>r_jwt = j, r_state = s, r_email = JStr ''a@b.c'', r_data = None\<rparr>"

definition user_fields :: "prefs \<Rightarrow> fields" where
  "user_fields p = \<lparr>r_jwt = JUndefined, r_state = JUndefined, r_email = JUndefined,
     r_data = Some \<lparr>user_id = JNum 7, preferences = Some p\<rparr>\<rparr>"

definition some_prefs :: "jsval \<Rightarrow> jsval \<Rightarrow> jsval \<Rightarrow> prefs" where
  "some_prefs m g r = \<lparr>showMusic = m, showGit = g, showRank = r, otherPrefs = []\<rparr>"

definition with_token :: state where
  "with_token = init\<lparr>items := (\<lambda>_. JNull)(''jwt'' := JStr ''tok'')\<rparr>"

text \<open>The remote preferences are all set and equal the local configuration.\<close>

definition in_sync :: "state \<Rightarrow> prefs \<Rightarrow> bool" where
  "in_sync st p =
     (\<not> unset (showMusic p) \<and> \<not> unset (showGit p) \<and> \<not> unset (showRank p) \<and>
      showMusic p = configuration st ''showMusicMetrics'' \<and>
      showGit p = configuration st ''showGitMetrics'' \<and>
      showRank p = configuration st ''showWeeklyRanking'')"

text \<open>A server that answers every request with user 7 and the preferences \<open>p\<close>.\<close>

definition w_prefs :: "prefs \<Rightarrow> world" where
  "w_prefs p = plain_world (\<lambda>_ _. ok_fields (user_fields p))"

text \<open>Vocabulary for the offline batch.\<close>

definition batch_post :: "world \<Rightarrow> state \<Rightarrow> string \<Rightarrow> request" where
  "batch_post w st content = \<lparr>meth = POST, path = DataBatch, body = BatchPayload (payloads_of w content),
      auth = getItem ''jwt'' st\<rparr>"

definition accepted :: "world \<Rightarrow> event list \<Rightarrow> request \<Rightarrow> bool" where
  "accepted w tr rq =
     (case server w tr rq of Resolved r \<Rightarrow> isResponseOk r \<or> isUserDeactivated r | Rejected \<Rightarrow> False)"

definition kept_line :: "world \<Rightarrow> string \<Rightarrow> json option" where
  "kept_line w l =
     (if l = [] then None
      else case JSON_parse w l of
             None \<Rightarrow> None
           | Some v \<Rightarrow> if json_truthy v then Some v else None)"

definition kept_lines :: "world \<Rightarrow> string \<Rightarrow> json list" where
  "kept_lines w content = List.map_filter (kept_line w) (split_lines content)"

definition valid_json_lines :: "world \<Rightarrow> string \<Rightarrow> string list" where
  "valid_json_lines w content = filter (\<lambda>l. JSON_parse w l \<noteq> None) (split_lines content)"

definition line_a :: string where
  \<open>line_a = ''{"a":1}''\<close>

definition line_b :: string where
  \<open>line_b = ''{"b":2}''\<close>

definition scenario :: string where
  "scenario = line_a @ [CHR 0x0A, CHR 0x0A] @ ''badjson'' @ [CHR 0x0A] @ line_b"

definition table_world :: "(string \<times> json) list \<Rightarrow> (event list \<Rightarrow> request \<Rightarrow> reply) \<Rightarrow> world" where
  "table_world tbl srv = (plain_world srv)\<lparr>JSON_parse := map_of tbl\<rparr>"

definition accept_all :: "event list \<Rightarrow> request \<Rightarrow> reply" where
  "accept_all tr rq = ok_fields (state_fields JUndefined JUndefined)"

text \<open>Servers that reject every request, reject all but the probe, or answer not-ok.\<close>

definition reject_all :: "event list \<Rightarrow> request \<Rightarrow> reply" where
  "reject_all tr rq = Rejected"

definition ping_only :: "event list \<Rightarrow> request \<Rightarrow> reply" where
  "ping_only tr rq = (if path rq = Ping then ok_fields (state_fields JUndefined JUndefined) else Rejected)"

definition not_ok :: "response \<Rightarrow> event list \<Rightarrow> request \<Rightarrow> reply" where
  "not_ok r tr rq = Resolved (r\<lparr>isResponseOk := False\<rparr>)"

text \<open>Vocabulary for the token: the onboarding POST, the login-state request, and whether a
  token is present in storage or in memory.\<close>

fun is_onboard_post :: "event \<Rightarrow> bool" where
  "is_onboard_post (Http rq) = (meth rq = POST \<and> path rq = DataOnboard)"
| "is_onboard_post _ = False"

fun is_state_request :: "event \<Rightarrow> bool" where
  "is_state_request (Http rq) = (path rq = UsersPluginState)"
| "is_state_request _ = False"

definition onboard_posts :: "event list \<Rightarrow> nat" where
  "onboard_posts tr = length (filter is_onboard_post tr)"

definition token_present :: "state \<Rightarrow> bool" where
  "token_present st = (truthy (getItem ''jwt'' st) \<or> truthy (cachedJwt st))"

text \<open>
  An operation is \<open>quiet\<close> when it leaves the cached and the stored token alone and sends
  neither an onboarding POST nor a login-state request.
\<close>

definition harmless :: "event \<Rightarrow> bool" where
  "harmless e = (\<not> is_onboard_post e \<and> \<not> is_state_request e)"

definition quiet :: "state \<Rightarrow> state \<Rightarrow> bool" where
  "quiet st st' =
     (cachedJwt st' = cachedJwt st \<and> getItem ''jwt'' st' = getItem ''jwt'' st \<and>
      (\<exists>new. trace st' = trace st @ new \<and> list_all harmless new))"

text \<open>
  The calls other code can make: the exported functions of the two modules, each run to
  its end, and a pending timer firing.
\<close>

datatype call =
    ServerIsAvailable
  | SendOfflineData
  | SendMusicData json
  | GetAppJwt bool
  | CreateAnonymousUser bool
  | GetUserStatus
  | GetUser bool jsval
  | InitializePreferences
  | UpdatePreferences
  | RefetchUserStatusLazily int
  | SendHeartbeat string
  | OnboardPlugin
  | OnboardManager_CreateAnonymousUser bool
  | TimerFires

fun run_call :: "world \<Rightarrow> call \<Rightarrow> state \<Rightarrow> state" where
  "run_call w ServerIsAvailable st = snd (serverIsAvailable w st)"
| "run_call w SendOfflineData st = sendOfflineData w st"
| "run_call w (SendMusicData t) st = snd (sendMusicData w t st)"
| "run_call w (GetAppJwt b) st = snd (getAppJwt w b st)"
| "run_call w (CreateAnonymousUser b) st = snd (createAnonymousUser w b st)"
| "run_call w GetUserStatus st = snd (getUserStatus w st)"
| "run_call w (GetUser b j) st = snd (getUser w b j st)"
| "run_call w InitializePreferences st = snd (initializePreferences w st)"
| "run_call w UpdatePreferences st = snd (updatePreferences w st)"
| "run_call w (RefetchUserStatusLazily n) st = refetchUserStatusLazily n st"
| "run_call w (SendHeartbeat r) st = snd (sendHeartbeat w r st)"
| "run_call w OnboardPlugin st = snd (onboardPlugin w st)"
| "run_call w (OnboardManager_CreateAnonymousUser b) st = snd (OnboardManager_createAnonymousUser w b st)"
| "run_call w TimerFires st = fire w st"

definition run_calls :: "world \<Rightarrow> call list \<Rightarrow> state \<Rightarrow> state" where
  "run_calls w cs st = foldl (\<lambda>s c. run_call w c s) st cs"

text \<open>
  How the token can move: through quiet operations, the two \<open>createAnonymousUser\<close>, and
  \<open>isLoggedOn\<close> called with the stored token or with a non-empty cached token (its only
  call sites, in \<open>getUserStatus\<close>).
\<close>

inductive moves :: "world \<Rightarrow> state \<Rightarrow> state \<Rightarrow> bool" for w :: world and st :: state where
  here: "moves w st st"
| quietly: "moves w st st1 \<Longrightarrow> quiet st1 st2 \<Longrightarrow> moves w st st2"
| creates: "moves w st st1 \<Longrightarrow> moves w st (snd (createAnonymousUser w b st1))"
| onboards: "moves w st st1 \<Longrightarrow> moves w st (snd (OnboardManager_createAnonymousUser w b st1))"
| checks_stored: "moves w st st1 \<Longrightarrow> moves w st (snd (isLoggedOn w b (getItem ''jwt'' st1) st1))"
| checks_cached: "moves w st st1 \<Longrightarrow> truthy (cachedJwt st1) \<Longrightarrow>
     moves w st (snd (isLoggedOn w b (cachedJwt st1) st1))"

text \<open>Whenever the cache holds a token, so does the store.\<close>

definition cache_backed :: "state \<Rightarrow> bool" where
  "cache_backed st = (truthy (cachedJwt st) \<longrightarrow> truthy (getItem ''jwt'' st))"

definition holds_token :: "nat \<Rightarrow> state \<Rightarrow> bool" where
  "holds_token n st = (truthy (getItem ''jwt'' st) \<and> onboard_posts (trace st) = n)"

text \<open>A server that answers every request ok with the token \<open>tok\<close>.\<close>

definition issues_tokens :: "event list \<Rightarrow> request \<Rightarrow> reply" where
  "issues_tokens tr rq = ok_fields (state_fields JUndefined (JStr ''tok''))"

text \<open>
  Besides the module's calls, other code of the extension writes the store; a token left
  in the store by an earlier session enters as such a write.
\<close>

datatype step = Module call | Elsewhere_setItem string jsval

fun run_step :: "world \<Rightarrow> step \<Rightarrow> state \<Rightarrow> state" where
  "run_step w (Module c) st = run_call w c st"
| "run_step w (Elsewhere_setItem k v) st = setItem k v st"

definition run_steps :: "world \<Rightarrow> step list \<Rightarrow> state \<Rightarrow> state" where
  "run_steps w ss st = foldl (\<lambda>s x. run_step w x s) st ss"

text \<open>
  The test \<open>appJwt && serverIsOnline\<close> that both \<open>createAnonymousUser\<close> make on what
  \<open>getAppJwt\<close> returned.
\<close>

definition appJwt_obtained :: "world \<Rightarrow> bool \<Rightarrow> state \<Rightarrow> bool" where
  "appJwt_obtained w serverIsOnline st =
     (case fst (getAppJwt w serverIsOnline st) of
        Return appJwt \<Rightarrow> truthy appJwt \<and> serverIsOnline
      | Raise \<Rightarrow> False)"

text \<open>A run in which other code empties the stored token after the anonymous user was created.\<close>

definition cache_cleared :: "step list" where
  "cache_cleared = [Module (CreateAnonymousUser True), Elsewhere_setItem ''jwt'' JNull]"

text \<open>
  A login-state request that carries a non-empty token uses that token: it is fine when
  \<open>setItem("jwt", token)\<close> is among the events seen before it.
\<close>

fun use_ok :: "event list \<Rightarrow> event \<Rightarrow> bool" where
  "use_ok seen (Http rq) =
     (if path rq = UsersPluginState \<and> truthy (auth rq) then SetItem ''jwt'' (auth rq) \<in> set seen else True)"
| "use_ok seen _ = True"

fun persisted_before_use :: "event list \<Rightarrow> event list \<Rightarrow> bool" where
  "persisted_before_use seen [] = True"
| "persisted_before_use seen (e # es) = (use_ok seen e \<and> persisted_before_use (seen @ [e]) es)"

definition tokens_persisted :: "state \<Rightarrow> bool" where
  "tokens_persisted st =
     ((if truthy (cachedJwt st) then SetItem ''jwt'' (cachedJwt st) \<in> set (trace st) else True) \<and>
      (if truthy (getItem ''jwt'' st) then SetItem ''jwt'' (getItem ''jwt'' st) \<in> set (trace st) else True) \<and>
      persisted_before_use [] (trace st))"

text \<open>A run in which the stored token is replaced by other code between two status checks.\<close>

definition rotation_steps :: "step list" where
  "rotation_steps = [Module GetUserStatus, Elsewhere_setItem ''jwt'' (JStr ''other''), Module GetUserStatus]"

text \<open>
  Every call of \<open>getUserStatus\<close> begins with \<open>cleanSessionInfo()\<close>, and nothing else calls
  it: the status checks made are the \<open>CleanSessionInfo\<close> events of the trace.
\<close>

definition status_checks :: "event list \<Rightarrow> nat" where
  "status_checks tr = length (filter (\<lambda>e. e = CleanSessionInfo) tr)"

text \<open>An operation is \<open>steady\<close> when it leaves timers and clock alone and checks no status.\<close>

definition steady :: "state \<Rightarrow> state \<Rightarrow> bool" where
  "steady st st' =
     (timers st' = timers st \<and> now st' = now st \<and>
      status_checks (trace st') = status_checks (trace st))"

text \<open>\<open>getUserStatus\<close> always returns \<open>{loggedIn: false}\<close>.\<close>

definition never_logged_in :: "world \<Rightarrow> bool" where
  "never_logged_in w = (\<forall>st. fst (getUserStatus w st) = Return False)"

text \<open>The timers that fire while \<open>run_timers\<close> runs, each with the time it was due.\<close>

fun is_handler :: "nat \<times> task \<Rightarrow> bool" where
  "is_handler (due, UserStatusFetchHandler n) = True"
| "is_handler (due, _) = False"

fun fired :: "world \<Rightarrow> nat \<Rightarrow> state \<Rightarrow> (nat \<times> task) list" where
  "fired w 0 st = []"
| "fired w (Suc n) st = (case timers st of [] \<Rightarrow> [] | t # ts \<Rightarrow> t # fired w n (fire w st))"

text \<open>What a status check does to the schedule after its \<open>cleanSessionInfo()\<close>.\<close>

definition checked :: "state \<Rightarrow> state \<Rightarrow> bool" where
  "checked st st' =
     (now st' = now st \<and> status_checks (trace st') = status_checks (trace st) \<and>
      (timers st' = timers st \<or>
       timers st' = enqueue (now st + 1000, FetchDailyKpmSessionInfo) (timers st)))"

text \<open>The handlers of a chain that starts at \<open>d\<close> with \<open>m\<close> tries left, ten seconds apart.\<close>

definition handler_times :: "nat \<Rightarrow> nat \<Rightarrow> (nat \<times> task) list" where
  "handler_times d m = map (\<lambda>i. (d + 10000 * i, UserStatusFetchHandler (int m - int i))) [0..<Suc m]"

definition chain_result :: "world \<Rightarrow> nat \<Rightarrow> state \<Rightarrow> (nat \<times> task) list \<Rightarrow> nat \<Rightarrow> bool" where
  "chain_result w fuel st hs c =
     (filter is_handler (fired w fuel st) = hs \<and> timers (run_timers w fuel st) = [] \<and>
      status_checks (trace (run_timers w fuel st)) = status_checks (trace st) + c)"

text \<open>A world whose server answers every request not-ok.\<close>

definition unreachable_world :: world where
  "unreachable_world = plain_world (not_ok \<lparr>isResponseOk = False, isUserDeactivated = False, data = NoData\<rparr>)"














section \<open>Requests and the reachability probe\<close>

lemma snd_send: "snd (send w m a b j st) = emit (Http \<lparr>meth = m, path = a, body = b, auth = j\<rparr>) st"
  by (simp add: send_def Let_def split: reply.split)

lemma serverIsAvailable_eq:
  "serverIsAvailable w st = (Return (probe w (trace st)), emit (Http (get_req Ping JNull)) st)"
  by (simp add: serverIsAvailable_def softwareGet_def send_def get_req_def probe_def Let_def
      split: reply.split)

lemma snd_getUser:
  "snd (getUser w b jwt st) = (if truthy jwt \<and> b then emit (Http (get_req UsersMe jwt)) st else st)"
  by (simp add: getUser_def softwareGet_def send_def get_req_def Let_def await_def
      split: reply.split resp_data.split)

section \<open>isLoggedOn\<close>

lemma isLoggedOn_OK:
  assumes "server w (trace st) (get_req UsersPluginState jwt) = Resolved resp"
    and "isResponseOk resp" and "data resp = Data d" and "r_state d = JStr ''OK''"
  shows "isLoggedOn w True jwt st =
     (Return (True, JStr ''OK''),
      (let st3 = (setItem ''name'' (r_email d) (emit (Http (get_req UsersPluginState jwt)) st))
                   \<lparr>cachedJwt := r_jwt d\<rparr>
       in if truthy (r_jwt d) \<and> r_jwt d \<noteq> jwt
          then (setItem ''jwt'' (r_jwt d) st3)\<lparr>initializedPrefs := False\<rparr> else st3))"
  using assms
  by (simp add: isLoggedOn_def softwareGet_def send_def await_def Let_def get_req_def)

text \<open>
  C3. A call of \<open>isLoggedOn\<close> (server online) whose request gets an ok response carrying the
  state \<open>OK\<close> returns \<open>{loggedOn: true, state: "OK"}\<close>; if the response's jwt is non-empty
  and differs from the jwt passed in, it is afterwards the stored jwt and the
  preferences-initialized flag is false.
\<close>

theorem isLoggedOn_OK_persists_rotated_token:
  assumes "server w (trace st) (get_req UsersPluginState jwt) = Resolved resp"
    and "isResponseOk resp" and "data resp = Data d" and "r_state d = JStr ''OK''"
  shows "fst (isLoggedOn w True jwt st) = Return (True, JStr ''OK'') \<and>
     (truthy (r_jwt d) \<and> r_jwt d \<noteq> jwt \<longrightarrow>
        getItem ''jwt'' (snd (isLoggedOn w True jwt st)) = r_jwt d \<and>
        \<not> initializedPrefs (snd (isLoggedOn w True jwt st)))"
  by (simp add: isLoggedOn_OK[OF assms] Let_def getItem_def setItem_def)

theorem isLoggedOn_OK_persists_rotated_token_witness:
  "fst (isLoggedOn (plain_world (\<lambda>_ _. ok_fields (state_fields (JStr ''OK'') (JStr ''new'')))) True (JStr ''old'')
          (init\<lparr>initializedPrefs := True\<rparr>)) = Return (True, JStr ''OK'') \<and>
   getItem ''jwt'' (snd (isLoggedOn (plain_world (\<lambda>_ _. ok_fields (state_fields (JStr ''OK'') (JStr ''new''))))
          True (JStr ''old'') (init\<lparr>initializedPrefs := True\<rparr>))) = JStr ''new'' \<and>
   \<not> initializedPrefs (snd (isLoggedOn (plain_world (\<lambda>_ _. ok_fields (state_fields (JStr ''OK'') (JStr ''new''))))
          True (JStr ''old'') (init\<lparr>initializedPrefs := True\<rparr>)))"
  using isLoggedOn_OK_persists_rotated_token
    [of "plain_world (\<lambda>_ _. ok_fields (state_fields (JStr ''OK'') (JStr ''new'')))"
        "init\<lparr>initializedPrefs := True\<rparr>" "JStr ''old''"
        "\<lparr>isResponseOk = True, isUserDeactivated = False,
          data = Data (state_fields (JStr ''OK'') (JStr ''new''))\<rparr>"
        "state_fields (JStr ''OK'') (JStr ''new'')"]
  by (simp add: plain_world_def ok_fields_def state_fields_def)

text \<open>
  C10. On an ok response carrying the state \<open>OK\<close>, \<open>isLoggedOn\<close> leaves the response's jwt
  field in the in-memory cache whatever it is (\<open>undefined\<close> when the field is absent); unless
  that jwt is non-empty and differs from the jwt passed in, the stored jwt and the
  preferences-initialized flag are as before.
\<close>

theorem isLoggedOn_OK_overwrites_cache:
  assumes "server w (trace st) (get_req UsersPluginState jwt) = Resolved resp"
    and "isResponseOk resp" and "data resp = Data d" and "r_state d = JStr ''OK''"
  shows "cachedJwt (snd (isLoggedOn w True jwt st)) = r_jwt d \<and>
     (\<not> (truthy (r_jwt d) \<and> r_jwt d \<noteq> jwt) \<longrightarrow>
        getItem ''jwt'' (snd (isLoggedOn w True jwt st)) = getItem ''jwt'' st \<and>
        initializedPrefs (snd (isLoggedOn w True jwt st)) = initializedPrefs st)"
  by (simp add: isLoggedOn_OK[OF assms] Let_def getItem_def setItem_def emit_def)

theorem isLoggedOn_OK_overwrites_cache_witness:
  "cachedJwt (snd (isLoggedOn (plain_world (\<lambda>_ _. ok_fields (state_fields (JStr ''OK'') JUndefined))) True (JStr ''tok'')
          (with_token\<lparr>initializedPrefs := True, cachedJwt := JStr ''tok''\<rparr>))) = JUndefined \<and>
   getItem ''jwt'' (snd (isLoggedOn (plain_world (\<lambda>_ _. ok_fields (state_fields (JStr ''OK'') JUndefined))) True (JStr ''tok'')
          (with_token\<lparr>initializedPrefs := True, cachedJwt := JStr ''tok''\<rparr>))) = JStr ''tok'' \<and>
   initializedPrefs (snd (isLoggedOn (plain_world (\<lambda>_ _. ok_fields (state_fields (JStr ''OK'') JUndefined))) True (JStr ''tok'')
          (with_token\<lparr>initializedPrefs := True, cachedJwt := JStr ''tok''\<rparr>)))"
  using isLoggedOn_OK_overwrites_cache
    [of "plain_world (\<lambda>_ _. ok_fields (state_fields (JStr ''OK'') JUndefined))"
        "with_token\<lparr>initializedPrefs := True, cachedJwt := JStr ''tok''\<rparr>" "JStr ''tok''"
        "\<lparr>isResponseOk = True, isUserDeactivated = False,
          data = Data (state_fields (JStr ''OK'') JUndefined)\<rparr>"
        "state_fields (JStr ''OK'') JUndefined"]
  by (simp add: plain_world_def ok_fields_def state_fields_def with_token_def init_def getItem_def)

section \<open>Preferences\<close>

lemma sendPreferencesUpdate_trace:
  "trace (snd (sendPreferencesUpdate w userId p st)) =
     trace st @ [UpdateShowMusicMetrics (configuration st ''showMusicMetrics''),
       Http \<lparr>meth = PUT, path = UsersIdPreferences userId, body = PrefsPayload (local_prefs st p),
             auth = getItem ''jwt'' st\<rparr>]"
  by (simp add: sendPreferencesUpdate_def softwarePut_def send_def Let_def await_def emit_def
        local_prefs_def getItem_def split: reply.split)

lemma sendPreferencesUpdate_configuration:
  "configuration (snd (sendPreferencesUpdate w userId p st)) = configuration st"
  by (simp add: sendPreferencesUpdate_def softwarePut_def send_def Let_def await_def emit_def
        split: reply.split)

lemma initializePreferences_fetched:
  assumes "truthy (getItem ''jwt'' st)"
    and "fst (serverIsAvailable w st) = Return True"
    and "fst (getUser w True (getItem ''jwt'' st) (snd (serverIsAvailable w st))) = Return (Some u)"
    and "preferences u = Some p"
  shows "snd (initializePreferences w st) =
     (let st2 = emit (Http (get_req UsersMe (getItem ''jwt'' st))) (emit (Http (get_req Ping JNull)) st) in
      if unset (showMusic p) \<or> unset (showGit p) \<or> unset (showRank p)
      then snd (sendPreferencesUpdate w (parseInt10 w (user_id u)) p st2)
      else configUpdate ''showWeeklyRanking'' (showRank p)
             (configUpdate ''showGitMetrics'' (showGit p)
                (emit (UpdateShowMusicMetrics (showMusic p))
                   (configUpdate ''showMusicMetrics'' (showMusic p) st2))))"
proof -
  have p: "probe w (trace st)"
    using assms(2) by (simp add: serverIsAvailable_eq)
  have gu: "getUser w True (getItem ''jwt'' st) (emit (Http (get_req Ping JNull)) st) =
      (Return (Some u), emit (Http (get_req UsersMe (getItem ''jwt'' st))) (emit (Http (get_req Ping JNull)) st))"
    using assms(1,3) snd_getUser[of w True "getItem ''jwt'' st" "emit (Http (get_req Ping JNull)) st"]
    by (simp add: serverIsAvailable_eq prod_eq_iff)
  show ?thesis
    using assms(1,4) p
    by (simp add: initializePreferences_def serverIsAvailable_eq gu await_def Let_def orNull_def unset_def)
qed

text \<open>
  C4. When \<open>initializePreferences\<close> has a token, finds the server reachable and fetches a
  user with preferences: if one of \<open>showMusic\<close>, \<open>showGit\<close>, \<open>showRank\<close> is unset, then after
  the two fetches it notifies the menu of the local music setting and sends the PUT to
  \<open>/users/:id/preferences\<close> whose body carries the three local configuration values, and
  the local configuration is as before; if all three are set, it sends no PUT and the three
  local configuration values are the remote ones.
\<close>

theorem initializePreferences_push_or_pull:
  assumes "truthy (getItem ''jwt'' st)"
    and "fst (serverIsAvailable w st) = Return True"
    and "fst (getUser w True (getItem ''jwt'' st) (snd (serverIsAvailable w st))) = Return (Some u)"
    and "preferences u = Some p"
  shows "(unset (showMusic p) \<or> unset (showGit p) \<or> unset (showRank p) \<longrightarrow>
           trace (snd (initializePreferences w st)) =
             trace st @ [Http (get_req Ping JNull), Http (get_req UsersMe (getItem ''jwt'' st)),
                         UpdateShowMusicMetrics (configuration st ''showMusicMetrics''),
                         Http (put_prefs w st u p)] \<and>
           configuration (snd (initializePreferences w st)) = configuration st) \<and>
         (\<not> unset (showMusic p) \<and> \<not> unset (showGit p) \<and> \<not> unset (showRank p) \<longrightarrow>
           trace (snd (initializePreferences w st)) =
             trace st @ [Http (get_req Ping JNull), Http (get_req UsersMe (getItem ''jwt'' st)),
                         UpdateShowMusicMetrics (showMusic p)] \<and>
           configuration (snd (initializePreferences w st)) =
             (configuration st)(''showMusicMetrics'' := showMusic p, ''showGitMetrics'' := showGit p,
                                ''showWeeklyRanking'' := showRank p))"
  by (simp add: initializePreferences_fetched[OF assms] Let_def sendPreferencesUpdate_trace
      sendPreferencesUpdate_configuration put_prefs_def local_prefs_def emit_def configUpdate_def getItem_def)

lemma with_token_facts:
  "getItem ''jwt'' with_token = JStr ''tok''"
  "configuration with_token = (\<lambda>_. JBool True)"
  "trace with_token = []"
  by (simp_all add: with_token_def init_def getItem_def)

lemma w_prefs_fetches_user:
  "fst (serverIsAvailable (w_prefs p) with_token) = Return True"
  "fst (getUser (w_prefs p) True (getItem ''jwt'' with_token) (snd (serverIsAvailable (w_prefs p) with_token)))
     = Return (Some \<lparr>user_id = JNum 7, preferences = Some p\<rparr>)"
  by (simp_all add: with_token_facts serverIsAvailable_eq probe_def w_prefs_def plain_world_def
      ok_fields_def getUser_def softwareGet_def send_def await_def user_fields_def)

lemma w_prefs_parseInt10: "parseInt10 (w_prefs p) v = v"
  by (simp add: w_prefs_def plain_world_def)

theorem initializePreferences_push_or_pull_witness:
  "trace (snd (initializePreferences (w_prefs (some_prefs (JBool False) JNull (JBool False))) with_token)) =
     [Http (get_req Ping JNull), Http (get_req UsersMe (JStr ''tok'')),
      UpdateShowMusicMetrics (JBool True),
      Http \<lparr>meth = PUT, path = UsersIdPreferences (JNum 7),
            body = PrefsPayload (some_prefs (JBool True) (JBool True) (JBool True)), auth = JStr ''tok''\<rparr>] \<and>
   configuration (snd (initializePreferences (w_prefs (some_prefs (JBool False) JNull (JBool False))) with_token))
     ''showMusicMetrics'' = JBool True \<and>
   trace (snd (initializePreferences (w_prefs (some_prefs (JBool False) (JBool False) (JBool False))) with_token)) =
     [Http (get_req Ping JNull), Http (get_req UsersMe (JStr ''tok'')), UpdateShowMusicMetrics (JBool False)] \<and>
   configuration (snd (initializePreferences (w_prefs (some_prefs (JBool False) (JBool False) (JBool False))) with_token))
     ''showMusicMetrics'' = JBool False \<and>
   configuration (snd (initializePreferences (w_prefs (some_prefs (JBool False) (JBool False) (JBool False))) with_token))
     ''showGitMetrics'' = JBool False \<and>
   configuration (snd (initializePreferences (w_prefs (some_prefs (JBool False) (JBool False) (JBool False))) with_token))
     ''showWeeklyRanking'' = JBool False"
  using initializePreferences_push_or_pull[OF _ w_prefs_fetches_user,
      of "some_prefs (JBool False) JNull (JBool False)" "some_prefs (JBool False) JNull (JBool False)"]
    initializePreferences_push_or_pull[OF _ w_prefs_fetches_user,
      of "some_prefs (JBool False) (JBool False) (JBool False)" "some_prefs (JBool False) (JBool False) (JBool False)"]
  by (simp add: with_token_facts unset_def some_prefs_def put_prefs_def local_prefs_def w_prefs_parseInt10)

lemma updatePreferences_configuration:
  "configuration (snd (updatePreferences w st)) = configuration st"
  by (simp add: updatePreferences_def Let_def serverIsAvailable_eq await_def
       emit_def getUser_def softwareGet_def send_def sendPreferencesUpdate_configuration
       split: reply.split resp_data.split option.split)

lemma push_condition:
  "(orNull a = JNull \<or> orNull b = JNull \<or> orNull c = JNull \<or>
    orNull a \<noteq> x \<or> orNull b \<noteq> y \<or> orNull c \<noteq> z) =
   (\<not> (\<not> unset a \<and> \<not> unset b \<and> \<not> unset c \<and> a = x \<and> b = y \<and> c = z))"
  by (auto simp: orNull_def unset_def)

lemma updatePreferences_fetched:
  assumes "fetches_prefs w st u p"
  shows "snd (updatePreferences w st) =
     (let st3 = emit (Http (get_req (UsersId (user_id u)) (getItem ''jwt'' st)))
                  (emit (Http (get_req UsersMe (getItem ''jwt'' st)))
                     (emit (Http (get_req Ping JNull))
                        (emit (UpdateShowMusicMetrics (configuration st ''showMusicMetrics'')) st)))
      in if in_sync st p then st3
         else snd (sendPreferencesUpdate w (parseInt10 w (user_id u)) p st3))"
proof -
  define st0 where "st0 = emit (UpdateShowMusicMetrics (configuration st ''showMusicMetrics'')) st"
  define st1 where "st1 = emit (Http (get_req Ping JNull)) st0"
  define st2 where "st2 = emit (Http (get_req UsersMe (getItem ''jwt'' st))) st1"
  from assms have j: "truthy (getItem ''jwt'' st)" and p: "probe w (trace st0)"
    and g: "fst (getUser w True (getItem ''jwt'' st) st1) = Return (Some u)"
    by (simp_all add: fetches_prefs_def Let_def serverIsAvailable_eq st0_def st1_def)
  have gu: "getUser w True (getItem ''jwt'' st) st1 = (Return (Some u), st2)"
    using g j snd_getUser[of w True "getItem ''jwt'' st" st1] by (simp add: prod_eq_iff st2_def)
  from assms obtain r d ud where
    r: "server w (trace st2) (get_req (UsersId (user_id u)) (getItem ''jwt'' st)) = Resolved r"
      "isResponseOk r" "data r = Data d" "r_data d = Some ud" "preferences ud = Some p"
    by (auto simp: fetches_prefs_def Let_def serverIsAvailable_eq snd_getUser st0_def st1_def st2_def
        split: reply.splits resp_data.splits option.splits)
  have j0: "getItem ''jwt'' st0 = getItem ''jwt'' st"
    by (simp add: st0_def emit_def getItem_def)
  show ?thesis
    using j p r
    unfolding updatePreferences_def Let_def push_condition in_sync_def[symmetric]
      st0_def[symmetric] serverIsAvailable_eq await_def st1_def[symmetric] j0
    by (simp add: gu softwareGet_def send_def get_req_def[symmetric] st2_def[symmetric])
qed

text \<open>
  C5. \<open>updatePreferences\<close> never changes the local configuration. When it fetches the user
  and the remote preferences: if the three remote fields are set and equal the local
  configuration values, it sends nothing after the three fetches; otherwise it sends the PUT
  whose body carries the three local configuration values.
\<close>

theorem updatePreferences_pushes_local:
  "configuration (snd (updatePreferences w st)) = configuration st \<and>
   (fetches_prefs w st u p \<longrightarrow>
      trace (snd (updatePreferences w st)) =
        trace st @ [UpdateShowMusicMetrics (configuration st ''showMusicMetrics''),
                    Http (get_req Ping JNull), Http (get_req UsersMe (getItem ''jwt'' st)),
                    Http (get_req (UsersId (user_id u)) (getItem ''jwt'' st))] @
        (if in_sync st p then []
         else [UpdateShowMusicMetrics (configuration st ''showMusicMetrics''), Http (put_prefs w st u p)]))"
  by (simp add: updatePreferences_configuration updatePreferences_fetched Let_def
      sendPreferencesUpdate_trace put_prefs_def local_prefs_def emit_def getItem_def)

lemma w_prefs_fetches_prefs:
  "fetches_prefs (w_prefs p) with_token \<lparr>user_id = JNum 7, preferences = Some p\<rparr> p"
  by (simp add: fetches_prefs_def Let_def serverIsAvailable_eq probe_def w_prefs_def plain_world_def
      ok_fields_def getUser_def softwareGet_def send_def await_def user_fields_def with_token_def
      init_def getItem_def emit_def)

theorem updatePreferences_pushes_local_witness:
  "trace (snd (updatePreferences (w_prefs (some_prefs (JBool True) (JBool True) (JBool True))) with_token)) =
     [UpdateShowMusicMetrics (JBool True), Http (get_req Ping JNull),
      Http (get_req UsersMe (JStr ''tok'')), Http (get_req (UsersId (JNum 7)) (JStr ''tok''))] \<and>
   trace (snd (updatePreferences (w_prefs (some_prefs (JBool True) (JBool False) (JBool True))) with_token)) =
     [UpdateShowMusicMetrics (JBool True), Http (get_req Ping JNull),
      Http (get_req UsersMe (JStr ''tok'')), Http (get_req (UsersId (JNum 7)) (JStr ''tok'')),
      UpdateShowMusicMetrics (JBool True),
      Http \<lparr>meth = PUT, path = UsersIdPreferences (JNum 7),
            body = PrefsPayload (some_prefs (JBool True) (JBool True) (JBool True)), auth = JStr ''tok''\<rparr>] \<and>
   configuration (snd (updatePreferences (w_prefs (some_prefs (JBool True) (JBool False) (JBool True))) with_token))
      ''showGitMetrics'' = JBool True"
  using updatePreferences_pushes_local[of "w_prefs (some_prefs (JBool True) (JBool True) (JBool True))" with_token
      "\<lparr>user_id = JNum 7, preferences = Some (some_prefs (JBool True) (JBool True) (JBool True))\<rparr>"
      "some_prefs (JBool True) (JBool True) (JBool True)"]
    updatePreferences_pushes_local[of "w_prefs (some_prefs (JBool True) (JBool False) (JBool True))" with_token
      "\<lparr>user_id = JNum 7, preferences = Some (some_prefs (JBool True) (JBool False) (JBool True))\<rparr>"
      "some_prefs (JBool True) (JBool False) (JBool True)"]
  by (simp add: w_prefs_fetches_prefs in_sync_def unset_def some_prefs_def put_prefs_def local_prefs_def
      with_token_facts w_prefs_parseInt10)

section \<open>The offline batch\<close>

lemma item_truthy_parse_item: "item_truthy (parse_item w l) = (kept_line w l \<noteq> None)"
  by (simp add: parse_item_def kept_line_def Let_def split: option.split)

lemma parse_item_kept: "kept_line w l = Some v \<Longrightarrow> parse_item w l = Some v"
  by (simp add: parse_item_def kept_line_def Let_def split: option.splits if_splits)

lemma payloads_of_kept: "map the (filter item_truthy (map (parse_item w) ls)) = List.map_filter (kept_line w) ls"
  by (induction ls) (auto simp: List.map_filter_simps item_truthy_parse_item parse_item_kept split: option.split)

lemma payloads_of_eq: "payloads_of w content = kept_lines w content"
  by (simp add: payloads_of_def kept_lines_def payloads_of_kept)

lemma split_scenario: "split_lines scenario = [line_a, [], ''badjson'', line_b]"
  by (simp add: split_lines_def scenario_def line_a_def line_b_def)

lemma sendOfflineData_contents:
  assumes "dataStoreFile st = Contents content" "content \<noteq> []"
  shows "sendOfflineData w st =
     (let st1 = emit (Http (batch_post w st content)) st in
      if accepted w (trace st) (batch_post w st content) then
        (let st2 = emit (Http (get_req Ping JNull)) st1 in
         if probe w (trace st1) then deleteFile st2 else st2)
      else st1)"
  using assms
  by (simp add: sendOfflineData_def softwarePost_def send_def serverIsAvailable_eq Let_def
      batch_post_def accepted_def split: reply.split)

text \<open>
  C2 (amended). Of a batch file with empty content nothing is sent. Of a batch file with
  non-empty content \<open>sendOfflineData\<close> POSTs to \<open>/data/batch\<close> the values of exactly the
  non-empty lines that \<open>JSON.parse\<close> accepts with a truthy value, in the order of the file
  (a line that does not parse, or parses to \<open>null\<close>, \<open>false\<close>, \<open>0\<close> or the empty string, is
  dropped); it deletes the file if and only if the response to the POST is ok or
  user-deactivated and the reachability probe made after it succeeds. For the content
  \<open>{"a":1}\n\nbadjson\n{"b":2}\<close> the payload is \<open>[{"a":1},{"b":2}]\<close>.
\<close>

theorem sendOfflineData_posts_truthy_lines:
  assumes "dataStoreFile st = Contents content"
  shows "(content = [] \<longrightarrow> sendOfflineData w st = st) \<and>
     (content \<noteq> [] \<longrightarrow>
        payloads_of w content = kept_lines w content \<and>
        trace (sendOfflineData w st) =
          trace st @ Http (batch_post w st content) #
            (if accepted w (trace st) (batch_post w st content) then [Http (get_req Ping JNull)] else []) \<and>
        (dataStoreFile (sendOfflineData w st) = Absent \<longleftrightarrow>
           accepted w (trace st) (batch_post w st content) \<and>
           probe w (trace st @ [Http (batch_post w st content)]))) \<and>
     (JSON_parse w line_a = Some (JsObj [(''a'', JsNum 1)]) \<and> JSON_parse w ''badjson'' = None \<and>
      JSON_parse w line_b = Some (JsObj [(''b'', JsNum 2)]) \<longrightarrow>
        payloads_of w scenario = [JsObj [(''a'', JsNum 1)], JsObj [(''b'', JsNum 2)]])"
proof (intro conjI impI)
  assume "content = []"
  then show "sendOfflineData w st = st"
    using assms by (simp add: sendOfflineData_def)
next
  assume "content \<noteq> []"
  then show "payloads_of w content = kept_lines w content"
    by (simp add: payloads_of_eq)
next
  assume c: "content \<noteq> []"
  show "trace (sendOfflineData w st) =
          trace st @ Http (batch_post w st content) #
            (if accepted w (trace st) (batch_post w st content) then [Http (get_req Ping JNull)] else [])"
    by (simp add: sendOfflineData_contents[OF assms c] Let_def emit_def deleteFile_def)
next
  assume c: "content \<noteq> []"
  show "(dataStoreFile (sendOfflineData w st) = Absent) =
           (accepted w (trace st) (batch_post w st content) \<and>
           probe w (trace st @ [Http (batch_post w st content)]))"
    using assms by (simp add: sendOfflineData_contents[OF assms c] Let_def emit_def deleteFile_def)
next
  assume "JSON_parse w line_a = Some (JsObj [(''a'', JsNum 1)]) \<and> JSON_parse w ''badjson'' = None \<and>
      JSON_parse w line_b = Some (JsObj [(''b'', JsNum 2)])"
  then show "payloads_of w scenario = [JsObj [(''a'', JsNum 1)], JsObj [(''b'', JsNum 2)]]"
    by (simp add: payloads_of_def split_scenario parse_item_def line_a_def line_b_def)
qed

lemma scenario_world_parses:
  "JSON_parse (table_world [(line_a, JsObj [(''a'', JsNum 1)]), (line_b, JsObj [(''b'', JsNum 2)])] accept_all) line_a
     = Some (JsObj [(''a'', JsNum 1)])"
  "JSON_parse (table_world [(line_a, JsObj [(''a'', JsNum 1)]), (line_b, JsObj [(''b'', JsNum 2)])] accept_all) ''badjson''
     = None"
  "JSON_parse (table_world [(line_a, JsObj [(''a'', JsNum 1)]), (line_b, JsObj [(''b'', JsNum 2)])] accept_all) line_b
     = Some (JsObj [(''b'', JsNum 2)])"
  by (simp_all add: table_world_def plain_world_def line_a_def line_b_def)

lemma accept_all_accepts:
  "accepted (table_world tbl accept_all) tr rq" "probe (table_world tbl accept_all) tr"
  by (simp_all add: accepted_def probe_def table_world_def plain_world_def accept_all_def ok_fields_def)

lemma scenario_nonempty: "scenario \<noteq> []"
  by (simp add: scenario_def line_a_def)

lemma init_facts:
  "trace (init\<lparr>dataStoreFile := f\<rparr>) = []"
  "getItem k (init\<lparr>dataStoreFile := f\<rparr>) = JNull"
  "dataStoreFile (init\<lparr>dataStoreFile := f\<rparr>) = f"
  by (simp_all add: init_def getItem_def)

theorem sendOfflineData_posts_truthy_lines_witness:
  "trace (sendOfflineData (table_world [(line_a, JsObj [(''a'', JsNum 1)]), (line_b, JsObj [(''b'', JsNum 2)])] accept_all)
            (init\<lparr>dataStoreFile := Contents scenario\<rparr>)) =
     [Http \<lparr>meth = POST, path = DataBatch,
            body = BatchPayload [JsObj [(''a'', JsNum 1)], JsObj [(''b'', JsNum 2)]], auth = JNull\<rparr>,
      Http (get_req Ping JNull)] \<and>
   dataStoreFile (sendOfflineData (table_world [(line_a, JsObj [(''a'', JsNum 1)]), (line_b, JsObj [(''b'', JsNum 2)])] accept_all)
            (init\<lparr>dataStoreFile := Contents scenario\<rparr>)) = Absent \<and>
   trace (sendOfflineData (table_world [] accept_all) (init\<lparr>dataStoreFile := Contents []\<rparr>)) = []"
  using sendOfflineData_posts_truthy_lines
    [of "init\<lparr>dataStoreFile := Contents scenario\<rparr>" scenario
        "table_world [(line_a, JsObj [(''a'', JsNum 1)]), (line_b, JsObj [(''b'', JsNum 2)])] accept_all"]
    sendOfflineData_posts_truthy_lines
    [of "init\<lparr>dataStoreFile := Contents []\<rparr>" "[]" "table_world [] accept_all"]
  by (auto simp: scenario_world_parses accept_all_accepts batch_post_def scenario_nonempty init_facts)

text \<open>
  The claim as stated counts the lines that parse as valid JSON. The line \<open>null\<close> is valid
  JSON, and it is not in the payload.
\<close>

theorem sendOfflineData_valid_line_dropped_counterexample:
  "valid_json_lines (table_world [(''null'', JsNull)] accept_all) ''null'' = [''null''] \<and>
   trace (sendOfflineData (table_world [(''null'', JsNull)] accept_all) (init\<lparr>dataStoreFile := Contents ''null''\<rparr>)) =
     [Http \<lparr>meth = POST, path = DataBatch, body = BatchPayload [], auth = JNull\<rparr>, Http (get_req Ping JNull)]"
  by (simp add: valid_json_lines_def split_lines_def table_world_def plain_world_def sendOfflineData_def
      init_def softwarePost_def send_def serverIsAvailable_eq payloads_of_def parse_item_def
      accept_all_def ok_fields_def emit_def getItem_def deleteFile_def probe_def get_req_def)

section \<open>Responses that are not ok, and requests that reject\<close>

lemma sendMusicData_safe:
  "fst (sendMusicData w t st) =
     Return (case server w (trace st)
                    \<lparr>meth = POST, path = DataMusic, body = MusicPayload t, auth = getItem ''jwt'' st\<rparr> of
               Resolved r \<Rightarrow> if isResponseOk r then Ok else Fail
             | Rejected \<Rightarrow> Fail)"
  by (simp add: sendMusicData_def softwarePost_def send_def Let_def split: reply.split)

lemma getAppJwt_not_ok:
  "server w (trace st) (get_req DataApptoken JNull) = Resolved r \<Longrightarrow> \<not> isResponseOk r \<Longrightarrow>
   fst (getAppJwt w b st) = Return JNull"
  by (simp add: getAppJwt_def softwareGet_def send_def get_req_def await_def Let_def)

lemma getUser_not_ok:
  "server w (trace st) (get_req UsersMe jwt) = Resolved r \<Longrightarrow> \<not> isResponseOk r \<Longrightarrow>
   fst (getUser w b jwt st) = Return None"
  by (simp add: getUser_def softwareGet_def send_def get_req_def await_def Let_def)

lemma getUserStatus_not_ok:
  "fst (getUserStatus (plain_world (not_ok r)) st) = Return False"
  by (simp add: getUserStatus_def serverIsAvailable_eq probe_def plain_world_def not_ok_def await_def Let_def)

text \<open>
  C8. The claim wants every public function to turn a request that rejects into its safe
  default. \<open>serverIsAvailable\<close> and \<open>sendMusicData\<close> do (they have a \<open>catch\<close>);
  \<open>getAppJwt\<close>, \<open>getUser\<close> and \<open>getUserStatus\<close> await the request with no handler, and the
  rejection leaves them: here with a transport that rejects every request, and for
  \<open>getUserStatus\<close> with one that answers the probe and rejects the rest.
\<close>

theorem rejection_leaves_getAppJwt_getUser_getUserStatus:
  "fst (serverIsAvailable (plain_world reject_all) init) = Return False \<and>
   fst (sendMusicData (plain_world reject_all) JsNull init) = Return Fail \<and>
   fst (getAppJwt (plain_world reject_all) True init) = Raise \<and>
   fst (getUser (plain_world reject_all) True (JStr ''tok'') init) = Raise \<and>
   fst (getUserStatus (plain_world ping_only) init) = Raise"
  by (simp add: serverIsAvailable_eq probe_def plain_world_def reject_all_def ping_only_def
      sendMusicData_def softwarePost_def getAppJwt_def getUser_def softwareGet_def send_def await_def
      getUserStatus_def createAnonymousUser_def init_def emit_def getItem_def get_req_def
      ok_fields_def Let_def)

section \<open>The token along sequences of calls\<close>

lemma quiet_refl: "quiet st st"
  by (simp add: quiet_def)

lemma quiet_trans: "quiet a b \<Longrightarrow> quiet b c \<Longrightarrow> quiet a c"
  by (auto simp: quiet_def)

lemma quiet_await:
  "quiet st (snd r) \<Longrightarrow> (\<And>x st1. quiet st1 (snd (k x st1))) \<Longrightarrow> quiet st (snd (await r k))"
  by (cases r) (auto simp: await_def intro: quiet_trans split: result.split)

lemma quiet_emit: "harmless e \<Longrightarrow> quiet st (emit e st)"
  by (simp add: quiet_def emit_def getItem_def)

lemma quiet_send: "\<not> (m = POST \<and> a = DataOnboard) \<Longrightarrow> a \<noteq> UsersPluginState \<Longrightarrow> quiet st (snd (send w m a b j st))"
  by (simp add: snd_send quiet_emit harmless_def)

lemma quiet_serverIsAvailable: "quiet st (snd (serverIsAvailable w st))"
  by (simp add: serverIsAvailable_eq quiet_emit harmless_def get_req_def)

lemma quiet_getAppJwt: "quiet st (snd (getAppJwt w b st))"
  unfolding getAppJwt_def softwareGet_def
  by (auto intro!: quiet_await quiet_send quiet_refl split: resp_data.split)

lemma quiet_getUser: "quiet st (snd (getUser w b j st))"
  unfolding getUser_def softwareGet_def
  by (auto intro!: quiet_await quiet_send quiet_refl split: resp_data.split)

lemma quiet_sendPreferencesUpdate: "quiet st (snd (sendPreferencesUpdate w i p st))"
  unfolding sendPreferencesUpdate_def softwarePut_def Let_def
  by (rule quiet_trans[OF quiet_emit]) (auto intro!: quiet_await quiet_send quiet_refl simp: harmless_def)

lemma quiet_configUpdate: "quiet st (configUpdate k v st)"
  by (simp add: quiet_def configUpdate_def getItem_def)

lemma quiet_setTimeout: "quiet st (setTimeout t ms st)"
  by (simp add: quiet_def setTimeout_def getItem_def)

lemma quiet_setItem_name: "quiet st (setItem ''name'' v st)"
  by (simp add: quiet_def setItem_def getItem_def harmless_def)

lemma quiet_post:
  "quiet a b \<Longrightarrow> quiet a (configUpdate k v b)"
  "quiet a b \<Longrightarrow> harmless e \<Longrightarrow> quiet a (emit e b)"
  "quiet a b \<Longrightarrow> quiet a (setTimeout t ms b)"
  "quiet a b \<Longrightarrow> quiet a (setItem ''name'' v b)"
  "quiet a b \<Longrightarrow> quiet a (deleteFile b)"
  "quiet a b \<Longrightarrow> quiet a (b\<lparr>initializedPrefs := x\<rparr>)"
  "quiet a b \<Longrightarrow> quiet a (b\<lparr>loggedInCacheState := y\<rparr>)"
  by (auto simp: quiet_def configUpdate_def emit_def setTimeout_def setItem_def deleteFile_def getItem_def
      harmless_def)

lemma quiet_initializePreferences: "quiet st (snd (initializePreferences w st))"
  unfolding initializePreferences_def Let_def
  by (intro quiet_await quiet_serverIsAvailable)
     (auto intro!: quiet_await quiet_getUser quiet_refl quiet_sendPreferencesUpdate quiet_post
        simp: harmless_def split: option.split)

lemma quiet_updatePreferences: "quiet st (snd (updatePreferences w st))"
  unfolding updatePreferences_def Let_def softwareGet_def
  by (rule quiet_trans[OF quiet_emit])
     (auto intro!: quiet_await quiet_serverIsAvailable quiet_getUser quiet_refl quiet_sendPreferencesUpdate
        quiet_send simp: harmless_def split: option.split resp_data.split)

lemma quiet_sendHeartbeat: "quiet st (snd (sendHeartbeat w r st))"
  unfolding sendHeartbeat_def Let_def softwarePost_def
  by (auto intro!: quiet_await quiet_serverIsAvailable quiet_refl quiet_send)

lemma quiet_sendMusicData: "quiet st (snd (sendMusicData w t st))"
  using quiet_send[of POST DataMusic st w "MusicPayload t" "getItem ''jwt'' st"]
  by (auto simp: sendMusicData_def softwarePost_def split: prod.split result.split)

lemma quiet_sendOfflineData: "quiet st (sendOfflineData w st)"
proof (cases "dataStoreFile st")
  case (Contents content)
  show ?thesis
  proof (cases "content = []")
    case True
    with Contents show ?thesis by (simp add: sendOfflineData_def quiet_refl)
  next
    case False
    have "quiet st (emit (Http (batch_post w st content)) st)"
      by (simp add: quiet_emit harmless_def batch_post_def)
    then show ?thesis
      by (auto simp: sendOfflineData_contents[OF Contents False] Let_def harmless_def get_req_def
          intro!: quiet_post)
  qed
qed (simp_all add: sendOfflineData_def quiet_refl)

lemma moves_trans: "moves w b c \<Longrightarrow> moves w a b \<Longrightarrow> moves w a c"
  by (induction rule: moves.induct) (auto intro: moves.intros)

lemma moves_quiet: "quiet a b \<Longrightarrow> moves w a b"
  by (rule quietly[OF here])

lemma moves_await:
  "moves w st (snd r) \<Longrightarrow> (\<And>x st1. moves w st1 (snd (k x st1))) \<Longrightarrow> moves w st (snd (await r k))"
  by (cases r) (auto simp: await_def intro: moves_trans split: result.split)

lemma moves_post:
  "moves w a b \<Longrightarrow> harmless e \<Longrightarrow> moves w a (emit e b)"
  "moves w a b \<Longrightarrow> moves w a (setTimeout t ms b)"
  "moves w a b \<Longrightarrow> moves w a (setItem ''name'' v b)"
  "moves w a b \<Longrightarrow> moves w a (b\<lparr>initializedPrefs := x\<rparr>)"
  "moves w a b \<Longrightarrow> moves w a (b\<lparr>loggedInCacheState := y\<rparr>)"
  by (auto intro: quietly quiet_post quiet_refl)

lemma quiet_then:
  "quiet a b \<Longrightarrow> quiet a (snd (sendHeartbeat w r b))"
  "quiet a b \<Longrightarrow> quiet a (snd (initializePreferences w b))"
  by (auto intro: quiet_trans quiet_sendHeartbeat quiet_initializePreferences)

lemma moves_getUserStatus: "moves w st (snd (getUserStatus w st))"
  unfolding getUserStatus_def Let_def
  apply (rule moves_await)
   apply (rule moves_trans[OF moves_quiet[OF quiet_serverIsAvailable] moves_quiet[OF quiet_emit]])
   apply (simp add: harmless_def)
  apply (rule moves_await)
   apply (auto intro!: moves_await moves.creates[OF here] moves.checks_stored[OF here]
        moves.checks_cached[OF here] here)[1]
  apply (rule moves_quiet)
  apply (auto intro!: quiet_post quiet_then quiet_refl simp: harmless_def)
  done

lemma moves_userStatusFetchHandler: "moves w st (snd (userStatusFetchHandler w n st))"
  unfolding userStatusFetchHandler_def refetchUserStatusLazily_def
  by (auto intro!: moves_await moves_getUserStatus moves_post here)

lemma moves_onboardPlugin: "moves w st (snd (onboardPlugin w st))"
  unfolding onboardPlugin_def prompt_and_retry_def
  by (auto intro!: moves_await moves_quiet[OF quiet_serverIsAvailable] moves_post here
        moves.onboards[OF here] simp: harmless_def)

lemma quiet_fields:
  "quiet st (st\<lparr>secondary_window_activate_counter := a\<rparr>)"
  "quiet st (st\<lparr>retry_counter := b\<rparr>)"
  "quiet st (st\<lparr>timers := ts, now := n\<rparr>)"
  by (simp_all add: quiet_def getItem_def)

lemma moves_run_task: "moves w st (run_task w t st)"
proof (cases t)
  case (UserStatusFetchHandler n)
  then show ?thesis by (simp add: run_task_def moves_userStatusFetchHandler)
next
  case FetchDailyKpmSessionInfo
  then show ?thesis by (simp add: run_task_def moves_post(1)[OF here] harmless_def)
next
  case OnboardDeferred
  then show ?thesis
    by (simp add: run_task_def moves_trans[OF moves_onboardPlugin moves_quiet[OF quiet_fields(1)]])
next
  case OnboardRetry
  then show ?thesis
    by (simp add: run_task_def moves_trans[OF moves_onboardPlugin moves_quiet[OF quiet_fields(2)]])
qed

lemma moves_fire: "moves w st (fire w st)"
  by (simp add: fire_def here moves_trans[OF moves_run_task moves_quiet[OF quiet_fields(3)]]
      split: list.split)

lemma moves_run_call: "moves w st (run_call w c st)"
  by (cases c)
     (auto intro!: moves_quiet quiet_serverIsAvailable quiet_sendOfflineData quiet_sendMusicData
        quiet_getAppJwt quiet_getUser quiet_initializePreferences quiet_updatePreferences
        quiet_sendHeartbeat quiet_setTimeout moves.creates[OF here] moves.onboards[OF here]
        moves_getUserStatus moves_onboardPlugin moves_fire
        simp: refetchUserStatusLazily_def)

lemma moves_run_calls: "moves w st (run_calls w cs st)"
  unfolding run_calls_def
  by (induction cs rule: rev_induct) (auto intro: here moves_trans[OF moves_run_call])

lemma onboard_posts_harmless: "list_all harmless new \<Longrightarrow> onboard_posts (tr @ new) = onboard_posts tr"
  by (induction new) (auto simp: onboard_posts_def harmless_def)

lemma cache_backed_quiet: "cache_backed a \<Longrightarrow> quiet a b \<Longrightarrow> cache_backed b"
  by (auto simp: cache_backed_def quiet_def)

lemma holds_token_quiet: "holds_token n a \<Longrightarrow> quiet a b \<Longrightarrow> holds_token n b"
  by (auto simp: holds_token_def quiet_def onboard_posts_harmless)

lemma keeps_await:
  "I (snd r) \<Longrightarrow> (\<And>x st1. I st1 \<Longrightarrow> I (snd (k x st1))) \<Longrightarrow> I (snd (await r k))"
  by (cases r) (auto simp: await_def split: result.split)

lemma cache_backed_createAnonymousUser:
  "cache_backed st \<Longrightarrow> cache_backed (snd (createAnonymousUser w b st))"
  unfolding createAnonymousUser_def Let_def
  apply (rule keeps_await[where I = cache_backed])
   apply (erule cache_backed_quiet[OF _ quiet_getAppJwt])
  apply (auto simp: cache_backed_def setItem_def getItem_def softwarePost_def send_def await_def emit_def Let_def
        split: reply.split)
  done

lemma cache_backed_OnboardManager_createAnonymousUser:
  "cache_backed st \<Longrightarrow> cache_backed (snd (OnboardManager_createAnonymousUser w b st))"
  unfolding OnboardManager_createAnonymousUser_def Let_def
  apply (rule keeps_await[where I = cache_backed])
   apply (erule cache_backed_quiet[OF _ quiet_getAppJwt])
  apply (auto simp: cache_backed_def setItem_def getItem_def softwarePost_def send_def await_def emit_def Let_def
        split: reply.split)
  done

lemma cache_backed_isLoggedOn:
  "cache_backed st \<Longrightarrow> jwt = getItem ''jwt'' st \<or> jwt = cachedJwt st \<Longrightarrow>
   cache_backed (snd (isLoggedOn w b jwt st))"
  by (auto simp: isLoggedOn_def cache_backed_def setItem_def getItem_def softwareGet_def send_def
      await_def emit_def Let_def split: reply.split resp_data.split)

lemma cache_backed_moves: "moves w st st' \<Longrightarrow> cache_backed st \<Longrightarrow> cache_backed st'"
  by (induction rule: moves.induct)
     (auto intro: cache_backed_quiet cache_backed_createAnonymousUser
        cache_backed_OnboardManager_createAnonymousUser cache_backed_isLoggedOn)

lemma holds_token_createAnonymousUser:
  "holds_token n st \<Longrightarrow> holds_token n (snd (createAnonymousUser w b st))"
  unfolding createAnonymousUser_def Let_def
  apply (rule keeps_await[where I = "holds_token n"])
   apply (erule holds_token_quiet[OF _ quiet_getAppJwt])
  apply (auto simp: holds_token_def)
  done

lemma holds_token_OnboardManager_createAnonymousUser:
  "holds_token n st \<Longrightarrow> holds_token n (snd (OnboardManager_createAnonymousUser w b st))"
  unfolding OnboardManager_createAnonymousUser_def Let_def
  apply (rule keeps_await[where I = "holds_token n"])
   apply (erule holds_token_quiet[OF _ quiet_getAppJwt])
  apply (auto simp: holds_token_def)
  done

lemma holds_token_isLoggedOn:
  "holds_token n st \<Longrightarrow> holds_token n (snd (isLoggedOn w b jwt st))"
  by (auto simp: isLoggedOn_def holds_token_def setItem_def getItem_def softwareGet_def send_def
      await_def emit_def Let_def onboard_posts_def split: reply.split resp_data.split)

lemma holds_token_moves: "moves w st st' \<Longrightarrow> holds_token n st \<Longrightarrow> holds_token n st'"
  by (induction rule: moves.induct)
     (auto intro: holds_token_quiet holds_token_createAnonymousUser
        holds_token_OnboardManager_createAnonymousUser holds_token_isLoggedOn)

lemma onboard_posts_snoc:
  "onboard_posts (tr @ [e]) = onboard_posts tr + (if is_onboard_post e then 1 else 0)"
  by (simp add: onboard_posts_def)

lemma quiet_facts:
  "quiet st st1 \<Longrightarrow> cachedJwt st1 = cachedJwt st \<and> getItem ''jwt'' st1 = getItem ''jwt'' st \<and>
     onboard_posts (trace st1) = onboard_posts (trace st)"
  by (auto simp: quiet_def onboard_posts_harmless)

lemma posts_createAnonymousUser:
  "onboard_posts (trace (snd (createAnonymousUser w b st))) =
     onboard_posts (trace st) + (if appJwt_obtained w b st \<and> \<not> token_present st then 1 else 0)"
proof -
  obtain r s1 where g: "getAppJwt w b st = (r, s1)"
    by (cases "getAppJwt w b st")
  have q: "cachedJwt s1 = cachedJwt st \<and> getItem ''jwt'' s1 = getItem ''jwt'' st \<and>
     onboard_posts (trace s1) = onboard_posts (trace st)"
    using quiet_facts[OF quiet_getAppJwt[of st w b]] g by simp
  show ?thesis
    using q
    by (cases r)
       (auto simp: createAnonymousUser_def appJwt_obtained_def token_present_def g await_def Let_def
          softwarePost_def send_def emit_def setItem_def onboard_posts_snoc onboard_posts_def
          split: reply.split)
qed

lemma posts_OnboardManager_createAnonymousUser:
  "onboard_posts (trace (snd (OnboardManager_createAnonymousUser w b st))) =
     onboard_posts (trace st) + (if appJwt_obtained w b st \<and> \<not> truthy (getItem ''jwt'' st) then 1 else 0)"
proof -
  obtain r s1 where g: "getAppJwt w b st = (r, s1)"
    by (cases "getAppJwt w b st")
  have q: "cachedJwt s1 = cachedJwt st \<and> getItem ''jwt'' s1 = getItem ''jwt'' st \<and>
     onboard_posts (trace s1) = onboard_posts (trace st)"
    using quiet_facts[OF quiet_getAppJwt[of st w b]] g by simp
  show ?thesis
    using q
    by (cases r)
       (auto simp: OnboardManager_createAnonymousUser_def appJwt_obtained_def g await_def Let_def
          softwarePost_def send_def emit_def setItem_def onboard_posts_snoc onboard_posts_def
          split: reply.split)
qed

lemma issues_tokens_appJwt: "appJwt_obtained (plain_world issues_tokens) True st"
  by (simp add: appJwt_obtained_def getAppJwt_def softwareGet_def send_def await_def plain_world_def
      issues_tokens_def ok_fields_def state_fields_def emit_def Let_def)

lemma cleared_run:
  "run_steps (plain_world issues_tokens) cache_cleared init =
     init\<lparr>cachedJwt := JStr ''tok'', items := (\<lambda>_. JNull),
          trace := [Http (get_req DataApptoken JNull),
                    Http \<lparr>meth = POST, path = DataOnboard,
                          body = OnboardPayload (JStr ''UTC'') (JStr ''dev'') ''NO_JWT'' (JStr ''host''),
                          auth = JStr ''tok''\<rparr>,
                    SetItem ''jwt'' (JStr ''tok''), SetItem ''jwt'' JNull]\<rparr>"
  by (simp add: run_steps_def cache_cleared_def createAnonymousUser_def getAppJwt_def softwareGet_def softwarePost_def
        send_def await_def plain_world_def issues_tokens_def ok_fields_def state_fields_def init_def
        emit_def setItem_def getItem_def get_req_def Let_def fun_eq_iff)

text \<open>
  C1. In every state, and so after every sequence of calls and of writes to the store by
  other code: DataController's \<open>createAnonymousUser\<close> sends the onboarding POST exactly when
  it obtained the app token and no token is present, neither stored nor cached;
  OnboardManager's \<open>createAnonymousUser\<close> sends it exactly when it obtained the app token and
  no token is stored, the cached token not being consulted. No call at all, of either
  module, sends an onboarding POST while a token is stored. And along the sequences of
  module calls alone that start where the modules are loaded (nothing cached), a cached
  token is always stored as well, so that there no call, \<open>createAnonymousUser\<close> of either
  module included, sends an onboarding POST while a token is present in either place.
\<close>

theorem onboarding_post_only_without_token:
  "onboard_posts (trace (snd (createAnonymousUser w b st))) =
     onboard_posts (trace st) + (if appJwt_obtained w b st \<and> \<not> token_present st then 1 else 0) \<and>
   onboard_posts (trace (snd (OnboardManager_createAnonymousUser w b st))) =
     onboard_posts (trace st) +
       (if appJwt_obtained w b st \<and> \<not> truthy (getItem ''jwt'' st) then 1 else 0) \<and>
   (truthy (getItem ''jwt'' st) \<longrightarrow>
      onboard_posts (trace (run_call w c st)) = onboard_posts (trace st)) \<and>
   (\<not> truthy (cachedJwt st) \<longrightarrow> token_present (run_calls w cs st) \<longrightarrow>
      onboard_posts (trace (run_call w c (run_calls w cs st))) = onboard_posts (trace (run_calls w cs st)))"
proof (intro conjI impI)
  show "onboard_posts (trace (snd (createAnonymousUser w b st))) =
     onboard_posts (trace st) + (if appJwt_obtained w b st \<and> \<not> token_present st then 1 else 0)"
    by (rule posts_createAnonymousUser)
  show "onboard_posts (trace (snd (OnboardManager_createAnonymousUser w b st))) =
     onboard_posts (trace st) +
       (if appJwt_obtained w b st \<and> \<not> truthy (getItem ''jwt'' st) then 1 else 0)"
    by (rule posts_OnboardManager_createAnonymousUser)
next
  assume "truthy (getItem ''jwt'' st)"
  then have "holds_token (onboard_posts (trace st)) st"
    by (simp add: holds_token_def)
  then have "holds_token (onboard_posts (trace st)) (run_call w c st)"
    by (rule holds_token_moves[OF moves_run_call])
  then show "onboard_posts (trace (run_call w c st)) = onboard_posts (trace st)"
    by (simp add: holds_token_def)
next
  assume a: "\<not> truthy (cachedJwt st)" and b: "token_present (run_calls w cs st)"
  have "cache_backed st"
    using a by (simp add: cache_backed_def)
  then have "cache_backed (run_calls w cs st)"
    by (rule cache_backed_moves[OF moves_run_calls])
  with b have "holds_token (onboard_posts (trace (run_calls w cs st))) (run_calls w cs st)"
    by (auto simp: cache_backed_def token_present_def holds_token_def)
  then have "holds_token (onboard_posts (trace (run_calls w cs st))) (run_call w c (run_calls w cs st))"
    by (rule holds_token_moves[OF moves_run_call])
  then show "onboard_posts (trace (run_call w c (run_calls w cs st))) = onboard_posts (trace (run_calls w cs st))"
    by (simp add: holds_token_def)
qed

theorem onboarding_post_only_without_token_witness:
  "onboard_posts (trace (snd (createAnonymousUser (plain_world issues_tokens) True
       (init\<lparr>cachedJwt := JStr ''tok''\<rparr>)))) = 0 \<and>
   onboard_posts (trace (snd (OnboardManager_createAnonymousUser (plain_world issues_tokens) True
       (init\<lparr>cachedJwt := JStr ''tok''\<rparr>)))) = 1 \<and>
   onboard_posts (trace (run_call (plain_world issues_tokens) OnboardPlugin with_token)) = 0 \<and>
   token_present (run_calls (plain_world issues_tokens) [CreateAnonymousUser True] init) \<and>
   onboard_posts (trace (run_calls (plain_world issues_tokens) [CreateAnonymousUser True] init)) = 1 \<and>
   onboard_posts (trace (run_call (plain_world issues_tokens) (OnboardManager_CreateAnonymousUser True)
       (run_calls (plain_world issues_tokens) [CreateAnonymousUser True] init))) = 1"
proof -
  have i: "\<not> truthy (cachedJwt init)" "onboard_posts (trace (init\<lparr>cachedJwt := JStr ''tok''\<rparr>)) = 0"
    "token_present (init\<lparr>cachedJwt := JStr ''tok''\<rparr>)"
    "\<not> truthy (getItem ''jwt'' (init\<lparr>cachedJwt := JStr ''tok''\<rparr>))"
    "truthy (getItem ''jwt'' with_token)" "onboard_posts (trace with_token) = 0"
    by (simp_all add: init_def with_token_def onboard_posts_def token_present_def getItem_def)
  have s: "run_calls (plain_world issues_tokens) [CreateAnonymousUser True] init =
     init\<lparr>cachedJwt := JStr ''tok'', items := (\<lambda>_. JNull)(''jwt'' := JStr ''tok''),
          trace := [Http (get_req DataApptoken JNull),
                    Http \<lparr>meth = POST, path = DataOnboard,
                          body = OnboardPayload (JStr ''UTC'') (JStr ''dev'') ''NO_JWT'' (JStr ''host''),
                          auth = JStr ''tok''\<rparr>,
                    SetItem ''jwt'' (JStr ''tok'')]\<rparr>"
    by (simp add: run_calls_def createAnonymousUser_def getAppJwt_def softwareGet_def softwarePost_def
        send_def await_def plain_world_def issues_tokens_def ok_fields_def state_fields_def init_def
        emit_def setItem_def getItem_def get_req_def Let_def)
  have b: "token_present (run_calls (plain_world issues_tokens) [CreateAnonymousUser True] init)"
    unfolding s token_present_def by (simp add: getItem_def)
  have c: "onboard_posts (trace (run_calls (plain_world issues_tokens) [CreateAnonymousUser True] init)) = 1"
    unfolding s onboard_posts_def by (simp add: get_req_def)
  have t1: "onboard_posts (trace (snd (createAnonymousUser (plain_world issues_tokens) True
       (init\<lparr>cachedJwt := JStr ''tok''\<rparr>)))) = 0"
    using onboarding_post_only_without_token
      [of "plain_world issues_tokens" True "init\<lparr>cachedJwt := JStr ''tok''\<rparr>" OnboardPlugin "[]"]
      i issues_tokens_appJwt
    by simp
  have t2: "onboard_posts (trace (snd (OnboardManager_createAnonymousUser (plain_world issues_tokens) True
       (init\<lparr>cachedJwt := JStr ''tok''\<rparr>)))) = 1"
    using onboarding_post_only_without_token
      [of "plain_world issues_tokens" True "init\<lparr>cachedJwt := JStr ''tok''\<rparr>" OnboardPlugin "[]"]
      i issues_tokens_appJwt
    by simp
  have t3: "onboard_posts (trace (run_call (plain_world issues_tokens) OnboardPlugin with_token)) = 0"
    using onboarding_post_only_without_token
      [of "plain_world issues_tokens" True with_token OnboardPlugin "[]"] i
    by simp
  have t4: "onboard_posts (trace (run_call (plain_world issues_tokens) (OnboardManager_CreateAnonymousUser True)
       (run_calls (plain_world issues_tokens) [CreateAnonymousUser True] init))) = 1"
    using onboarding_post_only_without_token
      [of "plain_world issues_tokens" True init "OnboardManager_CreateAnonymousUser True"
          "[CreateAnonymousUser True]"] i(1) b c
    by simp
  show ?thesis
    using t1 t2 t3 t4 b c by simp
qed

text \<open>
  The claim as stated has OnboardManager's \<open>createAnonymousUser\<close> hold back while the token
  is in the cache. After DataController created the anonymous user (one onboarding POST)
  and other code emptied the stored token, the token is still cached, and OnboardManager's
  \<open>createAnonymousUser\<close> sends a second onboarding POST.
\<close>

theorem OnboardManager_createAnonymousUser_second_post_counterexample:
  "token_present (run_steps (plain_world issues_tokens) cache_cleared init) \<and>
   onboard_posts (trace (run_steps (plain_world issues_tokens) cache_cleared init)) = 1 \<and>
   onboard_posts (trace (snd (OnboardManager_createAnonymousUser (plain_world issues_tokens) True
       (run_steps (plain_world issues_tokens) cache_cleared init)))) = 2"
  unfolding cleared_run
  by (simp add: token_present_def onboard_posts_def OnboardManager_createAnonymousUser_def getAppJwt_def softwareGet_def softwarePost_def
        send_def await_def plain_world_def issues_tokens_def ok_fields_def state_fields_def init_def
        emit_def setItem_def getItem_def get_req_def Let_def)

section \<open>The cached token is persisted before it is used\<close>

lemma persisted_before_use_append:
  "persisted_before_use seen (es @ fs) =
     (persisted_before_use seen es \<and> persisted_before_use (seen @ es) fs)"
  by (induction es arbitrary: seen) auto

lemma use_ok_harmless: "harmless e \<Longrightarrow> use_ok seen e"
  by (cases e) (auto simp: harmless_def)

lemma persisted_before_use_harmless: "list_all harmless fs \<Longrightarrow> persisted_before_use seen fs"
  by (induction fs arbitrary: seen) (auto simp: use_ok_harmless)

lemma tokens_persisted_quiet: "tokens_persisted a \<Longrightarrow> quiet a b \<Longrightarrow> tokens_persisted b"
  by (auto simp: tokens_persisted_def quiet_def persisted_before_use_append persisted_before_use_harmless
      split: if_splits)

lemma tokens_persisted_createAnonymousUser:
  "tokens_persisted st \<Longrightarrow> tokens_persisted (snd (createAnonymousUser w b st))"
  unfolding createAnonymousUser_def Let_def
  apply (rule keeps_await[where I = tokens_persisted])
   apply (erule tokens_persisted_quiet[OF _ quiet_getAppJwt])
  apply (auto simp: tokens_persisted_def setItem_def getItem_def softwarePost_def send_def await_def emit_def
        Let_def persisted_before_use_append split: reply.split if_splits)
  done

lemma tokens_persisted_OnboardManager_createAnonymousUser:
  "tokens_persisted st \<Longrightarrow> tokens_persisted (snd (OnboardManager_createAnonymousUser w b st))"
  unfolding OnboardManager_createAnonymousUser_def Let_def
  apply (rule keeps_await[where I = tokens_persisted])
   apply (erule tokens_persisted_quiet[OF _ quiet_getAppJwt])
  apply (auto simp: tokens_persisted_def setItem_def getItem_def softwarePost_def send_def await_def emit_def
        Let_def persisted_before_use_append split: reply.split if_splits)
  done

lemma tokens_persisted_isLoggedOn:
  "tokens_persisted st \<Longrightarrow> jwt = getItem ''jwt'' st \<or> truthy (cachedJwt st) \<and> jwt = cachedJwt st \<Longrightarrow>
   tokens_persisted (snd (isLoggedOn w b jwt st))"
  by (auto simp: isLoggedOn_def tokens_persisted_def setItem_def getItem_def softwareGet_def send_def
      await_def emit_def Let_def persisted_before_use_append split: reply.split resp_data.split if_splits)

lemma tokens_persisted_moves: "moves w st st' \<Longrightarrow> tokens_persisted st \<Longrightarrow> tokens_persisted st'"
  by (induction rule: moves.induct)
     (auto intro: tokens_persisted_quiet tokens_persisted_createAnonymousUser
        tokens_persisted_OnboardManager_createAnonymousUser tokens_persisted_isLoggedOn)

lemma tokens_persisted_setItem: "tokens_persisted st \<Longrightarrow> tokens_persisted (setItem k v st)"
  by (auto simp: tokens_persisted_def setItem_def getItem_def persisted_before_use_append split: if_splits)

lemma tokens_persisted_run_steps: "tokens_persisted st \<Longrightarrow> tokens_persisted (run_steps w ss st)"
  unfolding run_steps_def
proof (induction ss rule: rev_induct)
  case Nil
  then show ?case by simp
next
  case (snoc x xs)
  then show ?case
    by (cases x) (auto intro: tokens_persisted_moves[OF moves_run_call] tokens_persisted_setItem)
qed

text \<open>
  C7. Start where the modules are loaded (nothing cached, nothing stored, nothing done
  yet) and take any sequence of module calls and of writes to the store by other code. In
  the state reached, a non-empty cached token has been written to the store
  (\<open>setItem("jwt", token)\<close> is in the trace), and every login-state request sent with a
  non-empty token, the fallback retry with the cached token among them, comes after the
  write of that token. The code relies on the cached value only when it is truthy.
\<close>

theorem cached_token_persisted_before_use:
  assumes "\<not> truthy (cachedJwt st)" and "\<not> truthy (getItem ''jwt'' st)" and "trace st = []"
  shows "(truthy (cachedJwt (run_steps w ss st)) \<longrightarrow>
            SetItem ''jwt'' (cachedJwt (run_steps w ss st)) \<in> set (trace (run_steps w ss st))) \<and>
         persisted_before_use [] (trace (run_steps w ss st))"
proof -
  have "tokens_persisted st"
    using assms by (simp add: tokens_persisted_def)
  then have "tokens_persisted (run_steps w ss st)"
    by (rule tokens_persisted_run_steps)
  then show ?thesis
    by (simp add: tokens_persisted_def split: if_splits)
qed

lemma rotation_run:
  "cachedJwt (run_steps (plain_world issues_tokens) rotation_steps init) = JStr ''tok''"
  "trace (run_steps (plain_world issues_tokens) rotation_steps init) =
     [CleanSessionInfo, Http (get_req Ping JNull), Http (get_req DataApptoken JNull),
      Http \<lparr>meth = POST, path = DataOnboard,
            body = OnboardPayload (JStr ''UTC'') (JStr ''dev'') ''NO_JWT'' (JStr ''host''), auth = JStr ''tok''\<rparr>,
      SetItem ''jwt'' (JStr ''tok''), Http (get_req UsersPluginState (JStr ''tok'')),
      SetItem ''name'' JNull, SetContextLoggedIn False,
      SetItem ''jwt'' (JStr ''other''), CleanSessionInfo, Http (get_req Ping JNull),
      Http (get_req UsersPluginState (JStr ''other'')), Http (get_req UsersPluginState (JStr ''tok'')),
      SetItem ''name'' JNull, SetContextLoggedIn False]"
  by (simp_all add: run_steps_def rotation_steps_def getUserStatus_def createAnonymousUser_def getAppJwt_def
      isLoggedOn_def serverIsAvailable_eq probe_def softwareGet_def softwarePost_def send_def await_def
      plain_world_def issues_tokens_def ok_fields_def state_fields_def init_def emit_def setItem_def
      getItem_def get_req_def Let_def)

theorem cached_token_persisted_before_use_witness:
  "cachedJwt (run_steps (plain_world issues_tokens) rotation_steps init) = JStr ''tok'' \<and>
   SetItem ''jwt'' (JStr ''tok'') \<in> set (trace (run_steps (plain_world issues_tokens) rotation_steps init)) \<and>
   persisted_before_use [] (trace (run_steps (plain_world issues_tokens) rotation_steps init))"
  using cached_token_persisted_before_use[of init "plain_world issues_tokens" rotation_steps]
  by (simp add: rotation_run(1)) (simp add: init_def getItem_def)

section \<open>The retry chain of the status check\<close>

lemma steady_refl: "steady st st"
  by (simp add: steady_def)

lemma steady_trans: "steady a b \<Longrightarrow> steady b c \<Longrightarrow> steady a c"
  by (simp add: steady_def)

lemma steady_await:
  "steady st (snd r) \<Longrightarrow> (\<And>x st1. steady st1 (snd (k x st1))) \<Longrightarrow> steady st (snd (await r k))"
  by (cases r) (auto simp: await_def intro: steady_trans split: result.split)

lemma steady_post:
  "steady a b \<Longrightarrow> e \<noteq> CleanSessionInfo \<Longrightarrow> steady a (emit e b)"
  "steady a b \<Longrightarrow> steady a (setItem k v b)"
  "steady a b \<Longrightarrow> steady a (configUpdate k v b)"
  "steady a b \<Longrightarrow> steady a (b\<lparr>initializedPrefs := x\<rparr>)"
  "steady a b \<Longrightarrow> steady a (b\<lparr>loggedInCacheState := y\<rparr>)"
  "steady a b \<Longrightarrow> steady a (b\<lparr>cachedJwt := z\<rparr>)"
  by (auto simp: steady_def emit_def setItem_def configUpdate_def status_checks_def)

lemma steady_send: "steady st (snd (send w m a b j st))"
  by (simp add: snd_send steady_post steady_refl)

lemma steady_serverIsAvailable: "steady st (snd (serverIsAvailable w st))"
  by (simp add: serverIsAvailable_eq steady_post steady_refl)

lemma steady_getAppJwt: "steady st (snd (getAppJwt w b st))"
  unfolding getAppJwt_def softwareGet_def
  by (auto intro!: steady_await steady_send steady_refl split: resp_data.split)

lemma steady_getUser: "steady st (snd (getUser w b j st))"
  unfolding getUser_def softwareGet_def
  by (auto intro!: steady_await steady_send steady_refl split: resp_data.split)

lemma steady_createAnonymousUser: "steady st (snd (createAnonymousUser w b st))"
  unfolding createAnonymousUser_def softwarePost_def Let_def
  by (auto intro!: steady_await steady_getAppJwt steady_send steady_refl steady_post)

lemma steady_OnboardManager_createAnonymousUser:
  "steady st (snd (OnboardManager_createAnonymousUser w b st))"
  unfolding OnboardManager_createAnonymousUser_def softwarePost_def Let_def
  by (auto intro!: steady_await steady_getAppJwt steady_send steady_refl steady_post)

lemma steady_isLoggedOn: "steady st (snd (isLoggedOn w b j st))"
  unfolding isLoggedOn_def softwareGet_def Let_def
  by (auto intro!: steady_await steady_send steady_refl steady_post split: resp_data.split)

lemma steady_sendPreferencesUpdate: "steady st (snd (sendPreferencesUpdate w i p st))"
  unfolding sendPreferencesUpdate_def softwarePut_def Let_def
  by (auto intro!: steady_await steady_trans[OF _ steady_send] steady_post steady_refl)

lemma steady_initializePreferences: "steady st (snd (initializePreferences w st))"
  unfolding initializePreferences_def Let_def
  by (intro steady_await steady_serverIsAvailable)
     (auto intro!: steady_await steady_getUser steady_refl steady_sendPreferencesUpdate steady_post
        split: option.split)

lemma steady_sendHeartbeat: "steady st (snd (sendHeartbeat w r st))"
  unfolding sendHeartbeat_def Let_def softwarePost_def
  by (auto intro!: steady_await steady_serverIsAvailable steady_refl steady_send)

lemma steady_then:
  "steady a b \<Longrightarrow> steady a (snd (sendHeartbeat w r b))"
  "steady a b \<Longrightarrow> steady a (snd (initializePreferences w b))"
  by (auto intro: steady_trans steady_sendHeartbeat steady_initializePreferences)

lemma checked_steady: "steady a b \<Longrightarrow> checked b c \<Longrightarrow> checked a c"
  by (auto simp: steady_def checked_def)

lemma steady_imp_checked: "steady a b \<Longrightarrow> checked a b"
  by (simp add: steady_def checked_def)

lemma checked_await:
  assumes "steady st (snd r)" and "\<And>x st1. checked st1 (snd (k x st1))"
  shows "checked st (snd (await r k))"
proof (cases r)
  case (Pair res b)
  show ?thesis
  proof (cases res)
    case Raise
    with Pair assms(1) show ?thesis
      by (simp add: await_def steady_imp_checked)
  next
    case (Return x)
    with Pair assms(1) assms(2)[of b x] show ?thesis
      by (simp add: await_def checked_steady)
  qed
qed

lemma checked_post: "checked a b \<Longrightarrow> checked a (b\<lparr>loggedInCacheState := y\<rparr>)"
  by (simp add: checked_def)

lemma checked_setTimeout: "steady a b \<Longrightarrow> checked a (setTimeout FetchDailyKpmSessionInfo 1000 b)"
  by (simp add: steady_def checked_def setTimeout_def)

lemma getUserStatus_checked:
  "checked (emit CleanSessionInfo st) (snd (getUserStatus w st))"
  unfolding getUserStatus_def Let_def
  apply (rule checked_await)
   apply (rule steady_serverIsAvailable)
  apply (rule checked_await)
   apply (auto intro!: steady_await steady_createAnonymousUser steady_isLoggedOn steady_refl)[1]
  apply (simp only: snd_conv)
  apply (rule checked_post)
  apply (split if_split)
  apply (intro conjI impI)
   apply (rule checked_setTimeout)
   apply (auto intro!: steady_post steady_then steady_refl)[1]
  apply (rule steady_imp_checked)
  apply (auto intro!: steady_post steady_then steady_refl)[1]
  done

lemma getUserStatus_schedule:
  "now (snd (getUserStatus w st)) = now st"
  "status_checks (trace (snd (getUserStatus w st))) = Suc (status_checks (trace st))"
  "timers (snd (getUserStatus w st)) = timers st \<or>
   timers (snd (getUserStatus w st)) = enqueue (now st + 1000, FetchDailyKpmSessionInfo) (timers st)"
  using getUserStatus_checked[of st w]
  by (auto simp: checked_def emit_def status_checks_def)

lemma handler_times_Suc:
  "handler_times d (Suc m) = (d, UserStatusFetchHandler (int (Suc m))) # handler_times (d + 10000) m"
proof -
  have "[0..<Suc (Suc m)] = 0 # map Suc [0..<Suc m]"
    by (simp only: map_Suc_upt upt_conv_Cons[of 0 "Suc (Suc m)"])
  then show ?thesis
    by (simp add: handler_times_def comp_def algebra_simps del: upt_Suc)
qed

lemma fire_kpm:
  assumes "timers st = (t, FetchDailyKpmSessionInfo) # rest"
  shows "fire w st = emit RanFetchDailyKpmSessionInfo (st\<lparr>timers := rest, now := max (now st) t\<rparr>)"
  using assms by (simp add: fire_def run_task_def)

lemma chain_result_kpm:
  assumes "timers st = (t, FetchDailyKpmSessionInfo) # rest"
    and "chain_result w fuel (fire w st) hs c"
  shows "chain_result w (Suc fuel) st hs c"
  using assms
  by (simp add: chain_result_def fire_kpm[OF assms(1)] emit_def status_checks_def)

lemma fire_handler:
  assumes "never_logged_in w" and "timers st = (d, UserStatusFetchHandler n) # rest"
  shows "fire w st =
     (let st1 = snd (getUserStatus w (st\<lparr>timers := rest, now := max (now st) d\<rparr>))
      in if n > 0 then refetchUserStatusLazily (n - 1) st1 else st1)"
proof -
  obtain s1 where "getUserStatus w (st\<lparr>timers := rest, now := max (now st) d\<rparr>) = (Return False, s1)"
    using assms(1) by (metis never_logged_in_def prod.collapse)
  then show ?thesis
    using assms(2) by (simp add: fire_def run_task_def userStatusFetchHandler_def await_def Let_def)
qed

lemma quiescent: "timers st = [] \<Longrightarrow> fired w fuel st = [] \<and> run_timers w fuel st = st"
  by (cases fuel) simp_all

lemma chain_pop:
  assumes base: "\<And>st fuel. timers st = [(d, UserStatusFetchHandler n)] \<Longrightarrow> now st \<le> d \<Longrightarrow> b \<le> fuel \<Longrightarrow>
                   chain_result w fuel st hs c"
  shows "timers st = ks @ [(d, UserStatusFetchHandler n)] \<Longrightarrow>
         list_all (\<lambda>x. snd x = FetchDailyKpmSessionInfo \<and> fst x \<le> d) ks \<Longrightarrow>
         now st \<le> d \<Longrightarrow> length ks + b \<le> fuel \<Longrightarrow> chain_result w fuel st hs c"
proof (induction ks arbitrary: st fuel)
  case Nil
  then show ?case using base by simp
next
  case (Cons k ks)
  obtain t where k: "k = (t, FetchDailyKpmSessionInfo)" and t: "t \<le> d"
    using Cons.prems(2) by (cases k) auto
  obtain f where f: "fuel = Suc f"
    using Cons.prems(4) by (cases fuel) auto
  have tm: "timers st = (t, FetchDailyKpmSessionInfo) # (ks @ [(d, UserStatusFetchHandler n)])"
    using Cons.prems(1) k by simp
  have "chain_result w f (fire w st) hs c"
  proof (rule Cons.IH)
    show "timers (fire w st) = ks @ [(d, UserStatusFetchHandler n)]"
      by (simp add: fire_kpm[OF tm] emit_def)
    show "list_all (\<lambda>x. snd x = FetchDailyKpmSessionInfo \<and> fst x \<le> d) ks"
      using Cons.prems(2) by simp
    show "now (fire w st) \<le> d"
      using Cons.prems(3) t by (simp add: fire_kpm[OF tm] emit_def)
    show "length ks + b \<le> f"
      using Cons.prems(4) f by simp
  qed
  then show ?case
    unfolding f by (rule chain_result_kpm[OF tm])
qed

lemma chain_last:
  assumes "never_logged_in w" and "timers st = [(d, UserStatusFetchHandler 0)]" and "now st \<le> d"
    and "2 \<le> fuel"
  shows "chain_result w fuel st [(d, UserStatusFetchHandler 0)] 1"
proof -
  obtain f where f: "fuel = Suc (Suc f)"
    using assms(4) by (metis Suc_le_D numeral_2_eq_2 Suc_le_mono)
  define st0 where "st0 = st\<lparr>timers := [], now := max (now st) d\<rparr>"
  have fr: "fire w st = snd (getUserStatus w st0)"
    by (simp add: fire_handler[OF assms(1,2)] st0_def)
  have ck: "status_checks (trace (fire w st)) = Suc (status_checks (trace st))"
    by (simp add: fr getUserStatus_schedule st0_def)
  have nw: "now (fire w st) = d"
    using assms(3) by (simp add: fr getUserStatus_schedule st0_def)
  consider "timers (fire w st) = []" | "timers (fire w st) = [(d + 1000, FetchDailyKpmSessionInfo)]"
    using getUserStatus_schedule(3)[of w st0] assms(3) by (auto simp: fr st0_def)
  then show ?thesis
  proof cases
    case 1
    then show ?thesis
      using assms(2) ck by (simp add: chain_result_def f)
  next
    case 2
    then show ?thesis
      using assms(2) ck
      by (simp add: chain_result_def f fire_kpm[OF 2] quiescent emit_def status_checks_def)
  qed
qed

lemma chain_all:
  assumes "never_logged_in w"
  shows "timers st = ks @ [(d, UserStatusFetchHandler (int m))] \<Longrightarrow>
         list_all (\<lambda>x. snd x = FetchDailyKpmSessionInfo \<and> fst x \<le> d) ks \<Longrightarrow>
         now st \<le> d \<Longrightarrow> length ks + 2 * m + 2 \<le> fuel \<Longrightarrow>
         chain_result w fuel st (handler_times d m) (Suc m)"
proof (induction m arbitrary: st ks d fuel)
  case 0
  have "chain_result w fuel st [(d, UserStatusFetchHandler 0)] 1"
    using "0.prems" chain_pop[where b = 2 and n = 0 and w = w and d = d, OF chain_last[OF assms]]
    by simp
  then show ?case
    by (simp add: handler_times_def)
next
  case (Suc m)
  have base: "chain_result w fuel' st' (handler_times d (Suc m)) (Suc (Suc m))"
    if tm: "timers st' = [(d, UserStatusFetchHandler (int (Suc m)))]" and nw: "now st' \<le> d"
      and fl: "2 * m + 4 \<le> fuel'" for st' fuel'
  proof -
    obtain f where f: "fuel' = Suc f"
      using fl by (cases fuel') auto
    define st0 where "st0 = st'\<lparr>timers := [], now := max (now st') d\<rparr>"
    define st1 where "st1 = snd (getUserStatus w st0)"
    have fr: "fire w st' = refetchUserStatusLazily (int m) st1"
      using fire_handler[OF assms tm] by (simp add: st0_def st1_def Let_def)
    have n1: "now st1 = d"
      using nw by (simp add: st1_def getUserStatus_schedule st0_def)
    have c1: "status_checks (trace st1) = Suc (status_checks (trace st'))"
      by (simp add: st1_def getUserStatus_schedule st0_def)
    have t1: "timers st1 = [] \<or> timers st1 = [(d + 1000, FetchDailyKpmSessionInfo)]"
      using getUserStatus_schedule(3)[of w st0] nw by (auto simp: st1_def st0_def)
    obtain ks' where ks': "timers (fire w st') = ks' @ [(d + 10000, UserStatusFetchHandler (int m))]"
      "list_all (\<lambda>x. snd x = FetchDailyKpmSessionInfo \<and> fst x \<le> d + 10000) ks'" "length ks' \<le> 1"
      using t1 n1 by (auto simp: fr refetchUserStatusLazily_def setTimeout_def)
    have "chain_result w f (fire w st') (handler_times (d + 10000) m) (Suc m)"
    proof (rule Suc.IH[OF ks'(1,2)])
      show "now (fire w st') \<le> d + 10000"
        using n1 by (simp add: fr refetchUserStatusLazily_def setTimeout_def)
      show "length ks' + 2 * m + 2 \<le> f"
        using ks'(3) fl f by simp
    qed
    moreover have "status_checks (trace (fire w st')) = Suc (status_checks (trace st'))"
      using c1 by (simp add: fr refetchUserStatusLazily_def setTimeout_def)
    ultimately show ?thesis
      using tm by (simp add: chain_result_def f handler_times_Suc)
  qed
  show ?case
    using Suc.prems chain_pop[where b = "2 * m + 4" and w = w and d = d, OF base]
    by simp
qed

text \<open>
  C6. Let \<open>getUserStatus\<close> always return \<open>{loggedIn: false}\<close>, and call
  \<open>refetchUserStatusLazily(3)\<close> with no timer pending. Running the timers until none is
  left (eight firings are always enough), the handler fires exactly four times, 10, 20, 30
  and 40 seconds after the call, with 3, 2, 1 and 0 tries left; exactly four status checks
  are made; and no timer is pending afterwards.
\<close>

theorem refetchUserStatusLazily_three_tries:
  assumes "never_logged_in w" and "timers st = []" and "8 \<le> fuel"
  shows "filter is_handler (fired w fuel (refetchUserStatusLazily 3 st)) =
           [(now st + 10000, UserStatusFetchHandler 3), (now st + 20000, UserStatusFetchHandler 2),
            (now st + 30000, UserStatusFetchHandler 1), (now st + 40000, UserStatusFetchHandler 0)] \<and>
         timers (run_timers w fuel (refetchUserStatusLazily 3 st)) = [] \<and>
         status_checks (trace (run_timers w fuel (refetchUserStatusLazily 3 st))) =
           status_checks (trace st) + 4"
proof -
  have "chain_result w fuel (refetchUserStatusLazily 3 st) (handler_times (now st + 10000) 3) 4"
    using chain_all[OF assms(1), of "refetchUserStatusLazily 3 st" "[]" "now st + 10000" 3 fuel] assms(2,3)
    by (simp add: refetchUserStatusLazily_def setTimeout_def)
  then show ?thesis
    by (simp add: chain_result_def handler_times_def refetchUserStatusLazily_def setTimeout_def
        numeral_3_eq_3 upt_rec[of 0])
qed

lemma never_logged_in_unreachable: "never_logged_in unreachable_world"
  by (simp add: never_logged_in_def unreachable_world_def getUserStatus_not_ok)

theorem refetchUserStatusLazily_three_tries_witness:
  "filter is_handler (fired unreachable_world 8 (refetchUserStatusLazily 3 init)) =
     [(10000, UserStatusFetchHandler 3), (20000, UserStatusFetchHandler 2),
      (30000, UserStatusFetchHandler 1), (40000, UserStatusFetchHandler 0)] \<and>
   timers (run_timers unreachable_world 8 (refetchUserStatusLazily 3 init)) = [] \<and>
   status_checks (trace (run_timers unreachable_world 8 (refetchUserStatusLazily 3 init))) = 4"
proof -
  have i: "timers init = []" "now init = 0" "status_checks (trace init) = 0"
    by (simp_all add: init_def status_checks_def)
  show ?thesis
    using refetchUserStatusLazily_three_tries[OF never_logged_in_unreachable i(1), of 8]
    by (simp add: i)
qed

section \<open>The onboarding flow\<close>



































end
